theory Spec2Isabelle
  imports Complex_Main "HOL-Library.Multiset" "HOL-Library.Product_Lexorder"
begin

section \<open>Exceptions\<close>

text \<open>
  Every exception the modelled code can raise is a value of \<open>exn\<close>. A computation
  that may raise returns \<open>exn + 'a\<close>, with \<open>Inl\<close> for the raise.
\<close>

datatype exn =
    ValueError
  | TypeError
  | AttributeError
  | PathIOError
  | NoAvailablePort
  | OSError int
  | UnboundLocalError
  | ConnectionResetError

section \<open>pathlib: pure POSIX paths\<close>

text \<open>
  \<open>pathlib.PurePosixPath\<close> is library code. A parsed path is its root (\<open>''''\<close>,
  \<open>''/''\<close> or \<open>''//''\<close>) and the list of its components (\<open>_tail\<close> in the library).
  Virtual paths are pure POSIX paths on every host. Real paths are \<open>pathlib.Path\<close>,
  the flavour of the host: on a POSIX host that is the same pure path arithmetic; for
  another host the two operations that the resolver applies to real paths are given
  further down. A real path is kept in the same record, as its anchor (the root, with
  the drive on Windows) and its components.
\<close>

record ppath =
  p_root :: string
  p_tail :: "string list"

text \<open>\<open>str.split('/')\<close>: the pieces between separators, empty pieces kept.\<close>

fun split_sep :: "string \<Rightarrow> string list" where
  "split_sep [] = [[]]"
| "split_sep (c # cs) =
     (if c = CHR ''/'' then [] # split_sep cs
      else (c # hd (split_sep cs)) # tl (split_sep cs))"

text \<open>\<open>posixpath.splitroot\<close>: one leading slash, or three and more, give the root
  \<open>/\<close>; exactly two give \<open>//\<close>.\<close>

definition splitroot :: "string \<Rightarrow> string \<times> string" where
  "splitroot p =
     (if take 1 p \<noteq> ''/'' then ('''', p)
      else if take 1 (drop 1 p) \<noteq> ''/'' \<or> take 1 (drop 2 p) = ''/'' then (''/'', drop 1 p)
      else (take 2 p, drop 2 p))"

text \<open>The constructor \<open>PurePosixPath(s)\<close>: empty components and \<open>.\<close> are dropped.\<close>

definition PurePosixPath :: "string \<Rightarrow> ppath" where
  "PurePosixPath s =
     (case splitroot s of
        (r, rel) \<Rightarrow> \<lparr>p_root = r, p_tail = filter (\<lambda>x. x \<noteq> [] \<and> x \<noteq> ''.'') (split_sep rel)\<rparr>)"

definition is_absolute :: "ppath \<Rightarrow> bool" where
  "is_absolute p = (p_root p \<noteq> [])"

definition parts :: "ppath \<Rightarrow> string list" where
  "parts p = (if p_root p \<noteq> [] then p_root p # p_tail p else p_tail p)"

text \<open>\<open>a / b\<close>: an absolute right operand replaces the left one, a relative one is
  appended.\<close>

definition truediv :: "ppath \<Rightarrow> ppath \<Rightarrow> ppath" where
  "truediv a b = (if is_absolute b then b else \<lparr>p_root = p_root a, p_tail = p_tail a @ p_tail b\<rparr>)"

text \<open>\<open>p.parent\<close>: the root and the empty path are their own parents.\<close>

definition parent :: "ppath \<Rightarrow> ppath" where
  "parent p = (if p_tail p = [] then p else p\<lparr>p_tail := butlast (p_tail p)\<rparr>)"

text \<open>\<open>p.relative_to(other)\<close> raises \<open>ValueError\<close> unless \<open>other\<close> is \<open>p\<close> or one
  of its parents.\<close>

definition relative_to :: "ppath \<Rightarrow> ppath \<Rightarrow> exn + ppath" where
  "relative_to p other =
     (if p_root p = p_root other \<and> take (length (p_tail other)) (p_tail p) = p_tail other
      then Inr \<lparr>p_root = [], p_tail = drop (length (p_tail other)) (p_tail p)\<rparr>
      else Inl ValueError)"

text \<open>\<open>sep.join(xs)\<close> and \<open>str(p)\<close>.\<close>

fun str_join :: "string \<Rightarrow> string list \<Rightarrow> string" where
  "str_join sep [] = []"
| "str_join sep [x] = x"
| "str_join sep (x # y # ys) = x @ sep @ str_join sep (y # ys)"

definition str_path :: "ppath \<Rightarrow> string" where
  "str_path p = (if p_root p = [] \<and> p_tail p = [] then ''.'' else p_root p @ str_join ''/'' (p_tail p))"

text \<open>What every path object built by the library satisfies.\<close>

definition clean_part :: "string \<Rightarrow> bool" where
  "clean_part x = (x \<noteq> [] \<and> x \<noteq> ''.'' \<and> CHR ''/'' \<notin> set x)"

definition wf_path :: "ppath \<Rightarrow> bool" where
  "wf_path p = ((p_root p = [] \<or> p_root p = ''/'' \<or> p_root p = ''//'') \<and> list_all clean_part (p_tail p))"

section \<open>Permission and User\<close>

record Permission =
  path :: ppath
  readable :: bool
  writable :: bool

text \<open>\<open>Permission()\<close>: the defaults of the constructor.\<close>

definition Permission_default :: Permission where
  "Permission_default = \<lparr>path = PurePosixPath ''/'', readable = True, writable = True\<rparr>"

definition is_parent :: "Permission \<Rightarrow> ppath \<Rightarrow> bool" where
  "is_parent p other = (case relative_to other (path p) of Inr _ \<Rightarrow> True | Inl _ \<Rightarrow> False)"

record User =
  login :: "string option"
  password :: "string option"
  base_path :: ppath
  home_path :: ppath
  permissions :: "Permission list"
  maximum_connections :: "int option"

text \<open>Python's \<open>min(xs, key=k, default=d)\<close>: the first element with the least key.\<close>

fun min_key_loop :: "('a \<Rightarrow> nat) \<Rightarrow> 'a \<Rightarrow> 'a list \<Rightarrow> 'a" where
  "min_key_loop k best [] = best"
| "min_key_loop k best (x # xs) = min_key_loop k (if k x < k best then x else best) xs"

definition py_min :: "('a \<Rightarrow> nat) \<Rightarrow> 'a \<Rightarrow> 'a list \<Rightarrow> 'a" where
  "py_min k d xs = (case xs of [] \<Rightarrow> d | x # rest \<Rightarrow> min_key_loop k x rest)"

text \<open>The key of \<open>get_permissions\<close>: \<open>len(path_.relative_to(p.path).parts)\<close>. It is
  only evaluated on permissions that passed \<open>is_parent\<close>.\<close>

definition remaining_parts :: "ppath \<Rightarrow> Permission \<Rightarrow> nat" where
  "remaining_parts qpath p =
     (case relative_to qpath (path p) of Inr rel \<Rightarrow> length (parts rel) | Inl _ \<Rightarrow> 0)"

definition get_permissions :: "User \<Rightarrow> ppath \<Rightarrow> Permission" where
  "get_permissions u qpath =
     (let parents = filter (\<lambda>p. is_parent p qpath) (permissions u)
      in py_min (remaining_parts qpath) Permission_default parents)"

section \<open>Throttle\<close>

text \<open>
  Timestamps are Python floats. Their arithmetic is not computed here: the operations
  that \<open>append\<close> applies to them are a parameter, over any type \<open>'f\<close> of float
  values. \<open>fl_sub\<close> is the float subtraction, \<open>fl_mul_int\<close> the product of a float
  with the integer limit (an \<open>OverflowError\<close> when the integer has no float),
  \<open>fl_less\<close> the comparison, and \<open>fl_round\<close> the one-argument \<open>round\<close>, which
  returns an integer and raises \<open>OverflowError\<close> on an infinity and \<open>ValueError\<close> on
  a NaN. The data is a byte string, of which only the length is used.
\<close>

record 'f float_ops =
  fl_sub :: "'f \<Rightarrow> 'f \<Rightarrow> 'f"
  fl_mul_int :: "'f \<Rightarrow> int \<Rightarrow> exn + 'f"
  fl_less :: "'f \<Rightarrow> 'f \<Rightarrow> bool"
  fl_round :: "'f \<Rightarrow> exn + int"

record 'f Throttle =
  t_limit :: "int option"
  reset_rate :: 'f
  t_start :: "'f option"
  t_sum :: int

definition Throttle_init :: "int option \<Rightarrow> 'f \<Rightarrow> 'f Throttle" where
  "Throttle_init l rr = \<lparr>t_limit = l, reset_rate = rr, t_start = None, t_sum = 0\<rparr>"

text \<open>\<open>append\<close>: when the product or \<open>round\<close> raises, \<open>_start\<close> may have been
  initialised but \<open>_sum\<close> and \<open>_start\<close> have not been updated.\<close>

definition Throttle_append ::
  "'f float_ops \<Rightarrow> 'f Throttle \<Rightarrow> string \<Rightarrow> 'f \<Rightarrow> (exn + unit) \<times> 'f Throttle" where
  "Throttle_append ops t data start =
     (case t_limit t of
        None \<Rightarrow> (Inr (), t)
      | Some l \<Rightarrow>
          if 0 < l then
            (let t1 = (case t_start t of None \<Rightarrow> t\<lparr>t_start := Some start\<rparr> | Some _ \<Rightarrow> t);
                 s = (case t_start t1 of None \<Rightarrow> start | Some s0 \<Rightarrow> s0)
             in if fl_less ops (reset_rate t1) (fl_sub ops start s)
                then (case fl_mul_int ops (fl_sub ops start s) l of
                        Inl x \<Rightarrow> (Inl x, t1)
                      | Inr product \<Rightarrow>
                          (case fl_round ops product of
                             Inl x \<Rightarrow> (Inl x, t1)
                           | Inr r \<Rightarrow>
                               (let t2 = t1\<lparr>t_sum := t_sum t1 - r, t_start := Some start\<rparr>
                                in (Inr (), t2\<lparr>t_sum := t_sum t2 + int (length data)\<rparr>))))
                else (Inr (), t1\<lparr>t_sum := t_sum t1 + int (length data)\<rparr>))
          else (Inr (), t))"

section \<open>AvailableConnections\<close>

text \<open>The counter is \<open>None\<close> when the class was built with \<open>None\<close>; comparing an
  integer with a \<open>None\<close> maximum is a \<open>TypeError\<close>.\<close>

record AvailableConnections =
  ac_value :: "int option"
  maximum_value :: "int option"

definition AvailableConnections_init :: "int option \<Rightarrow> AvailableConnections" where
  "AvailableConnections_init v = \<lparr>ac_value = v, maximum_value = v\<rparr>"

definition locked :: "AvailableConnections \<Rightarrow> bool" where
  "locked a = (ac_value a = Some 0)"

definition acquire :: "AvailableConnections \<Rightarrow> (exn + unit) \<times> AvailableConnections" where
  "acquire a =
     (case ac_value a of
        None \<Rightarrow> (Inr (), a)
      | Some v \<Rightarrow>
          (let a1 = a\<lparr>ac_value := Some (v - 1)\<rparr>
           in if v - 1 < 0 then (Inl ValueError, a1) else (Inr (), a1)))"

definition release :: "AvailableConnections \<Rightarrow> (exn + unit) \<times> AvailableConnections" where
  "release a =
     (case ac_value a of
        None \<Rightarrow> (Inr (), a)
      | Some v \<Rightarrow>
          (let a1 = a\<lparr>ac_value := Some (v + 1)\<rparr>
           in case maximum_value a1 of
                None \<Rightarrow> (Inl TypeError, a1)
              | Some m \<Rightarrow> if m < v + 1 then (Inl ValueError, a1) else (Inr (), a1)))"

section \<open>Connection, server and environment\<close>

text \<open>
  The fields of \<open>Connection\<close> that the modelled handlers read or write. Fields that
  Python initialises to \<open>None\<close> are options. \<open>responses\<close> is the response queue the
  \<open>response\<close> callable appends to, \<open>io_log\<close> records the calls made to the path-I/O
  layer, and \<open>extra_workers\<close> holds the workers a handler has scheduled, each with
  the real path its closure captured.
\<close>

datatype info = Str string | Lines "string list"

datatype io_call =
    IO_exists ppath
  | IO_is_dir ppath
  | IO_is_file ppath
  | IO_size ppath
  | IO_open ppath string
  | IO_seek int
  | IO_copy

datatype worker_kind = stor_worker string | retr_worker

datatype family = AF_INET | AF_INET6 | AF_UNIX

text \<open>A listening socket: its family and what \<open>getsockname()\<close> returns. An IPv4 host
  is kept as the numbers of its dotted quad.\<close>

record sock =
  sock_family :: family
  sock_host :: "nat list"
  sock_port :: nat

record Connection =
  user :: "User option"
  logged :: "bool option"
  current_directory :: "ppath option"
  passive_server :: "sock list option"
  passive_server_port :: nat
  data_connection :: "unit option"
  transfer_type :: "string option"
  rename_from :: "ppath option"
  restart_offset :: int
  acquired :: bool
  extra_workers :: "(worker_kind \<times> ppath) list"
  responses :: "(string \<times> info) list"
  io_log :: "io_call list"

text \<open>The connection the dispatcher builds for a new client.\<close>

definition Connection_init :: Connection where
  "Connection_init =
     \<lparr>user = None, logged = None, current_directory = None, passive_server = None,
      passive_server_port = 0, data_connection = None, transfer_type = None,
      rename_from = None, restart_offset = 0, acquired = False, extra_workers = [],
      responses = [], io_log = []\<rparr>"

text \<open>
  The data-port pool is an \<open>asyncio.PriorityQueue\<close> of \<open>(priority, port)\<close> pairs,
  kept here as a list sorted in the order of Python's tuples; it is \<open>None\<close> when the
  server was built without \<open>data_ports\<close>.
\<close>

type_synonym port_queue = "(nat \<times> nat) list"

definition put_nowait :: "nat \<times> nat \<Rightarrow> port_queue \<Rightarrow> port_queue" where
  "put_nowait x q = insort x q"

text \<open>\<open>get_nowait\<close>: \<open>None\<close> stands for \<open>asyncio.QueueEmpty\<close>.\<close>

definition get_nowait :: "port_queue \<Rightarrow> ((nat \<times> nat) \<times> port_queue) option" where
  "get_nowait q = (case q of [] \<Rightarrow> None | x # xs \<Rightarrow> Some (x, xs))"

record Server =
  available_data_ports :: "port_queue option"
  available_connections :: AvailableConnections
  ipv4_pasv_forced_response_address :: "nat list option"

text \<open>\<open>Server.__init__\<close>, for the fields above.\<close>

definition Server_init :: "int option \<Rightarrow> nat list option \<Rightarrow> nat list option \<Rightarrow> Server" where
  "Server_init maximum_connections_arg forced data_ports =
     \<lparr>available_data_ports =
        (case data_ports of
           None \<Rightarrow> None
         | Some ps \<Rightarrow> Some (fold (\<lambda>data_port q. put_nowait (0, data_port) q) ps [])),
      available_connections = AvailableConnections_init maximum_connections_arg,
      ipv4_pasv_forced_response_address = forced\<rparr>"

text \<open>
  What lies outside \<open>server.py\<close>, as it answers at the moment a command is handled:
  the path-I/O layer (each call may raise), \<open>asyncio.start_server\<close> on a port (it
  fails with an \<open>OSError\<close>, given by its errno), and the one fact about the module
  \<open>errors\<close> that the server's control flow depends on: whether \<open>NoAvailablePort\<close>
  derives from \<open>OSError\<close>. Of the interpreter: what \<open>str.isdigit\<close> and \<open>int\<close> answer
  on text that is not ASCII (\<open>isdigit\<close> accepts characters \<open>int\<close> refuses, superscript
  digits for one), and the limit on the length of a decimal string that \<open>int\<close>
  converts, \<open>sys.get_int_max_str_digits()\<close>: 4300 unless configured, 0 for no limit.
\<close>

record env =
  fs_exists :: "ppath \<Rightarrow> exn + bool"
  fs_is_dir :: "ppath \<Rightarrow> exn + bool"
  fs_is_file :: "ppath \<Rightarrow> exn + bool"
  fs_size :: "ppath \<Rightarrow> exn + nat"
  fs_open :: "ppath \<Rightarrow> string \<Rightarrow> exn + unit"
  start_server :: "nat \<Rightarrow> int + sock list"
  NoAvailablePort_is_OSError :: bool
  str_isdigit :: "string \<Rightarrow> bool"
  str_int :: "string \<Rightarrow> exn + int"
  int_max_str_digits :: nat

definition EADDRINUSE :: int where
  "EADDRINUSE = 98"

type_synonym state = "Server \<times> Connection"

datatype ret = RBool bool | RNone

type_synonym handler = "env \<Rightarrow> string \<Rightarrow> state \<Rightarrow> (exn + ret) \<times> state"

definition response :: "string \<Rightarrow> info \<Rightarrow> Connection \<Rightarrow> Connection" where
  "response code i c = c\<lparr>responses := responses c @ [(code, i)]\<rparr>"

definition respond :: "string \<Rightarrow> info \<Rightarrow> state \<Rightarrow> state" where
  "respond code i sc = (fst sc, response code i (snd sc))"

definition log_io :: "io_call \<Rightarrow> state \<Rightarrow> state" where
  "log_io call sc = (fst sc, (snd sc)\<lparr>io_log := io_log (snd sc) @ [call]\<rparr>)"

section \<open>Strings\<close>

text \<open>\<open>str(n)\<close> for a natural number, \<open>s.isdigit()\<close> and the value of \<open>int(s)\<close> for
  ASCII text, and \<open>repr(s)\<close> for a string without quotes, backslashes or control
  characters. A string is a list of 8-bit characters: those below 128 are ASCII.\<close>

function str_nat :: "nat \<Rightarrow> string" where
  "str_nat n = (if n < 10 then [''0123456789'' ! n] else str_nat (n div 10) @ [''0123456789'' ! (n mod 10)])"
  by pat_completeness auto
termination
  by (relation "measure id") auto

definition digit_value :: "char \<Rightarrow> nat option" where
  "digit_value ch = map_of (zip ''0123456789'' [0 ..< 10]) ch"

definition isdigit :: "string \<Rightarrow> bool" where
  "isdigit s = (s \<noteq> [] \<and> list_all (\<lambda>ch. digit_value ch \<noteq> None) s)"

definition int_of_digits :: "string \<Rightarrow> int" where
  "int_of_digits s = int (fold (\<lambda>ch acc. 10 * acc + (case digit_value ch of Some d \<Rightarrow> d | None \<Rightarrow> 0)) s 0)"

definition is_ascii :: "string \<Rightarrow> bool" where
  "is_ascii s = list_all (\<lambda>ch. (of_char ch :: nat) < 128) s"

text \<open>\<open>s.isdigit()\<close> for any text.\<close>

definition py_isdigit :: "env \<Rightarrow> string \<Rightarrow> bool" where
  "py_isdigit e s = (if is_ascii s then isdigit s else str_isdigit e s)"

text \<open>\<open>int(s)\<close> for a string on which \<open>isdigit\<close> holds: a \<open>ValueError\<close> when the
  string is longer than the limit (every character is a digit here, and leading zeros
  count).\<close>

definition py_int :: "env \<Rightarrow> string \<Rightarrow> exn + int" where
  "py_int e s =
     (if is_ascii s
      then (if int_max_str_digits e \<noteq> 0 \<and> int_max_str_digits e < length s
            then Inl ValueError else Inr (int_of_digits s))
      else str_int e s)"

definition repr :: "string \<Rightarrow> string" where
  "repr s = [CHR 0x27] @ s @ [CHR 0x27]"

section \<open>Path resolver\<close>

text \<open>The loop of \<open>get_paths\<close> over \<open>virtual_path.parts[1:]\<close>.\<close>

fun resolve_loop :: "ppath \<Rightarrow> string list \<Rightarrow> ppath" where
  "resolve_loop resolved [] = resolved"
| "resolve_loop resolved (part # ps) =
     resolve_loop (if part = ''..'' then parent resolved
                   else truediv resolved (PurePosixPath part)) ps"

text \<open>
  \<open>get_paths\<close> from the parsed client path on. A missing current directory makes
  \<open>None / virtual_path\<close> a \<open>TypeError\<close>, a missing user makes
  \<open>connection.user.base_path\<close> an \<open>AttributeError\<close>. \<open>base_path\<close> is a
  \<open>pathlib.Path\<close> of the host: \<open>hdiv\<close> is its \<open>/\<close> with a pure POSIX path as the
  right operand and \<open>hrel\<close> its \<open>relative_to\<close>. The \<open>try\<close> around
  \<open>real_path.relative_to(base_path)\<close> is the last \<open>case\<close>; it catches \<open>ValueError\<close>
  only.
\<close>

definition get_paths_host ::
  "(ppath \<Rightarrow> ppath \<Rightarrow> ppath) \<Rightarrow> (ppath \<Rightarrow> ppath \<Rightarrow> exn + ppath) \<Rightarrow>
   Connection \<Rightarrow> ppath \<Rightarrow> exn + (ppath \<times> ppath)" where
  "get_paths_host hdiv hrel connection virtual_path0 =
     (case (if \<not> is_absolute virtual_path0
            then (case current_directory connection of
                    None \<Rightarrow> Inl TypeError
                  | Some cwd \<Rightarrow> Inr (truediv cwd virtual_path0))
            else Inr virtual_path0) of
        Inl e \<Rightarrow> Inl e
      | Inr virtual_path \<Rightarrow>
          (let resolved_virtual_path = resolve_loop (PurePosixPath ''/'') (drop 1 (parts virtual_path))
           in case user connection of
                None \<Rightarrow> Inl AttributeError
              | Some u \<Rightarrow>
                  (case relative_to resolved_virtual_path (PurePosixPath ''/'') of
                     Inl e \<Rightarrow> Inl e
                   | Inr rel \<Rightarrow>
                       (let real_path = hdiv (base_path u) rel
                        in case hrel real_path (base_path u) of
                             Inl x \<Rightarrow>
                               if x = ValueError then Inr (base_path u, PurePosixPath ''/'')
                               else Inl x
                           | Inr _ \<Rightarrow> Inr (real_path, resolved_virtual_path)))))"

text \<open>On a POSIX host, which is the host of the handlers below.\<close>

definition get_paths_of :: "Connection \<Rightarrow> ppath \<Rightarrow> exn + (ppath \<times> ppath)" where
  "get_paths_of = get_paths_host truediv relative_to"

definition get_paths :: "Connection \<Rightarrow> string \<Rightarrow> exn + (ppath \<times> ppath)" where
  "get_paths connection s = get_paths_of connection (PurePosixPath s)"

text \<open>A virtual path as the resolver returns it: rooted at \<open>/\<close>, with clean components,
  none of them \<open>..\<close>.\<close>

definition jailed :: "ppath \<Rightarrow> bool" where
  "jailed r = (p_root r = ''/'' \<and> list_all clean_part (p_tail r) \<and> ''..'' \<notin> set (p_tail r))"

definition is_relative_to :: "ppath \<Rightarrow> ppath \<Rightarrow> bool" where
  "is_relative_to p other = (case relative_to p other of Inr _ \<Rightarrow> True | Inl _ \<Rightarrow> False)"

subsection \<open>A Windows host\<close>

text \<open>
  \<open>pathlib\<close>'s Windows flavour, for what the resolver does with it: \<open>base_path / rel\<close>
  with a base path that has a drive and a root (its anchor is the drive, a colon and a
  backslash) and a pure POSIX path \<open>rel\<close>, and \<open>relative_to\<close>. It is written for
  operands none of whose components begins with a drive letter and a colon or with two
  backslashes, and for ASCII names.

  The components of the right operand are parsed again by the Windows flavour, from
  the last to the first: a slash becomes a backslash, a component is split at its
  backslashes, empty pieces and \<open>.\<close> are dropped, and a component that begins with a
  backslash is rooted: the components before it are not read, and the result keeps only
  the anchor of the left operand.
\<close>

fun split_backslash :: "string \<Rightarrow> string list" where
  "split_backslash [] = [[]]"
| "split_backslash (c # cs) =
     (if c = CHR 0x5C then [] # split_backslash cs
      else (c # hd (split_backslash cs)) # tl (split_backslash cs))"

definition windows_pieces :: "string \<Rightarrow> string list" where
  "windows_pieces part = filter (\<lambda>x. x \<noteq> [] \<and> x \<noteq> ''.'') (split_backslash part)"

fun windows_parse_parts :: "string list \<Rightarrow> bool \<times> string list" where
  "windows_parse_parts [] = (False, [])"
| "windows_parse_parts (part # ps) =
     (case windows_parse_parts ps of
        (True, xs) \<Rightarrow> (True, xs)
      | (False, xs) \<Rightarrow> (take 1 part = [CHR 0x5C], windows_pieces part @ xs))"

definition windows_truediv :: "ppath \<Rightarrow> ppath \<Rightarrow> ppath" where
  "windows_truediv a b =
     (case windows_parse_parts (map (map (\<lambda>ch. if ch = CHR ''/'' then CHR 0x5C else ch)) (parts b)) of
        (rooted, xs) \<Rightarrow> \<lparr>p_root = p_root a, p_tail = (if rooted then xs else p_tail a @ xs)\<rparr>)"

text \<open>\<open>str.lower\<close> on ASCII text; the Windows flavour compares the parts of two paths
  after lowering them.\<close>

definition ascii_lower :: "string \<Rightarrow> string" where
  "ascii_lower s =
     map (\<lambda>ch. if 65 \<le> (of_char ch :: nat) \<and> (of_char ch :: nat) \<le> 90
               then char_of ((of_char ch :: nat) + 32) else ch) s"

definition windows_relative_to :: "ppath \<Rightarrow> ppath \<Rightarrow> exn + ppath" where
  "windows_relative_to p other =
     (if ascii_lower (p_root p) = ascii_lower (p_root other)
         \<and> map ascii_lower (take (length (p_tail other)) (p_tail p)) = map ascii_lower (p_tail other)
      then Inr \<lparr>p_root = [], p_tail = drop (length (p_tail other)) (p_tail p)\<rparr>
      else Inl ValueError)"

text \<open>The path that the Win32 file API opens for an anchored path: \<open>..\<close> components
  are resolved lexically, and \<open>..\<close> at the root stays at the root.\<close>

fun win32_normalize_loop :: "string list \<Rightarrow> string list \<Rightarrow> string list" where
  "win32_normalize_loop kept [] = kept"
| "win32_normalize_loop kept (x # xs) =
     win32_normalize_loop (if x = ''..'' then butlast kept else kept @ [x]) xs"

definition win32_normalize :: "ppath \<Rightarrow> ppath" where
  "win32_normalize p = p\<lparr>p_tail := win32_normalize_loop [] (p_tail p)\<rparr>"

section \<open>Precondition guards\<close>

datatype field = F_user | F_logged | F_passive_server | F_data_connection | F_rename_from

text \<open>\<open>getattr(connection, name) is None\<close>.\<close>

fun field_is_None :: "field \<Rightarrow> Connection \<Rightarrow> bool" where
  "field_is_None F_user c = (user c = None)"
| "field_is_None F_logged c = (logged c = None)"
| "field_is_None F_passive_server c = (passive_server c = None)"
| "field_is_None F_data_connection c = (data_connection c = None)"
| "field_is_None F_rename_from c = (rename_from c = None)"

definition user_required :: "field \<times> string" where
  "user_required = (F_user, ''no user (use USER firstly)'')"

definition login_required :: "field \<times> string" where
  "login_required = (F_logged, ''not logged in'')"

definition passive_server_started :: "field \<times> string" where
  "passive_server_started = (F_passive_server, ''no listen socket created (use PASV firstly)'')"

definition data_connection_made :: "field \<times> string" where
  "data_connection_made = (F_data_connection, ''no data connection made'')"

definition rename_from_required :: "field \<times> string" where
  "rename_from_required = (F_rename_from, ''no filename (use RNFR firstly)'')"

text \<open>
  \<open>ConnectionConditions(*fields, fail_code=...)(f)\<close>. The wrapper answers with the
  message of the first field that is \<open>None\<close> and returns what \<open>connection.response\<close>
  returns, which is \<open>None\<close>; it reads neither \<open>wait\<close> nor \<open>fail_info\<close>.
\<close>

fun ConnectionConditions_loop :: "(field \<times> string) list \<Rightarrow> Connection \<Rightarrow> string option" where
  "ConnectionConditions_loop [] c = None"
| "ConnectionConditions_loop ((name, msg) # flds) c =
     (if field_is_None name c then Some msg else ConnectionConditions_loop flds c)"

definition ConnectionConditions :: "(field \<times> string) list \<Rightarrow> string \<Rightarrow> handler \<Rightarrow> handler" where
  "ConnectionConditions flds fail_code f e rest sc =
     (case ConnectionConditions_loop flds (snd sc) of
        Some msg \<Rightarrow> (Inr RNone, respond fail_code (Str msg) sc)
      | None \<Rightarrow> f e rest sc)"

datatype path_check = Check_exists | Check_is_dir | Check_is_file

definition path_must_exists :: "path_check \<times> bool \<times> string" where
  "path_must_exists = (Check_exists, False, ''path does not exists'')"

definition path_must_not_exists :: "path_check \<times> bool \<times> string" where
  "path_must_not_exists = (Check_exists, True, ''path already exists'')"

definition path_must_be_dir :: "path_check \<times> bool \<times> string" where
  "path_must_be_dir = (Check_is_dir, False, ''path is not a directory'')"

definition path_must_be_file :: "path_check \<times> bool \<times> string" where
  "path_must_be_file = (Check_is_file, False, ''path is not a file'')"

text \<open>\<open>getattr(connection.path_io, name)(real_path)\<close>: the call is logged, the
  environment answers.\<close>

fun path_io_check :: "env \<Rightarrow> path_check \<Rightarrow> ppath \<Rightarrow> state \<Rightarrow> (exn + bool) \<times> state" where
  "path_io_check e Check_exists p sc = (fs_exists e p, log_io (IO_exists p) sc)"
| "path_io_check e Check_is_dir p sc = (fs_is_dir e p, log_io (IO_is_dir p) sc)"
| "path_io_check e Check_is_file p sc = (fs_is_file e p, log_io (IO_is_file p) sc)"

text \<open>The loop of \<open>PathConditions\<close>: the message of the first condition that fails, or
  the exception of the path-I/O call.\<close>

fun PathConditions_loop ::
  "env \<Rightarrow> ppath \<Rightarrow> (path_check \<times> bool \<times> string) list \<Rightarrow> state \<Rightarrow> (exn + string option) \<times> state" where
  "PathConditions_loop e real_path [] sc = (Inr None, sc)"
| "PathConditions_loop e real_path ((name, fail, message) # conditions) sc =
     (case path_io_check e name real_path sc of
        (Inl x, sc1) \<Rightarrow> (Inl x, sc1)
      | (Inr b, sc1) \<Rightarrow>
          if b = fail then (Inr (Some message), sc1)
          else PathConditions_loop e real_path conditions sc1)"

definition PathConditions :: "(path_check \<times> bool \<times> string) list \<Rightarrow> handler \<Rightarrow> handler" where
  "PathConditions conditions f e rest sc =
     (case get_paths (snd sc) rest of
        Inl x \<Rightarrow> (Inl x, sc)
      | Inr (real_path, virtual_path) \<Rightarrow>
          (case PathConditions_loop e real_path conditions sc of
             (Inl x, sc1) \<Rightarrow> (Inl x, sc1)
           | (Inr (Some message), sc1) \<Rightarrow> (Inr (RBool True), respond ''550'' (Str message) sc1)
           | (Inr None, sc1) \<Rightarrow> f e rest sc1))"

datatype permission_name = readable_name | writable_name

text \<open>\<open>getattr(current_permission, permission)\<close>.\<close>

fun getattr_permission :: "Permission \<Rightarrow> permission_name \<Rightarrow> bool" where
  "getattr_permission p readable_name = readable p"
| "getattr_permission p writable_name = writable p"

text \<open>
  The loop of \<open>PathPermissions\<close>, as written: the \<open>return await f(...)\<close> stands inside
  the \<open>for\<close>, so the first iteration always returns and the rest of the tuple is never
  read. With no permission declared the loop body never runs and the wrapper returns
  \<open>None\<close> without calling \<open>f\<close>.
\<close>

fun PathPermissions_loop ::
  "Permission \<Rightarrow> permission_name list \<Rightarrow> handler \<Rightarrow> handler" where
  "PathPermissions_loop current_permission [] f e rest sc = (Inr RNone, sc)"
| "PathPermissions_loop current_permission (permission # _) f e rest sc =
     (if \<not> getattr_permission current_permission permission
      then (Inr (RBool True), respond ''550'' (Str ''permission denied'') sc)
      else f e rest sc)"

definition PathPermissions :: "permission_name list \<Rightarrow> handler \<Rightarrow> handler" where
  "PathPermissions perms f e rest sc =
     (case get_paths (snd sc) rest of
        Inl x \<Rightarrow> (Inl x, sc)
      | Inr (real_path, virtual_path) \<Rightarrow>
          (case user (snd sc) of
             None \<Rightarrow> (Inl AttributeError, sc)
           | Some u \<Rightarrow> PathPermissions_loop (get_permissions u virtual_path) perms f e rest sc))"

text \<open>The guard as the specification intends it: every declared flag must hold.\<close>

definition all_permissions_hold :: "Permission \<Rightarrow> permission_name list \<Rightarrow> bool" where
  "all_permissions_hold p perms = list_all (getattr_permission p) perms"

section \<open>Command handlers\<close>

definition ftp_quit :: handler where
  "ftp_quit e rest sc = (Inr (RBool False), respond ''221'' (Str ''bye'') sc)"

definition ftp_pwd :: handler where
  "ftp_pwd =
     ConnectionConditions [login_required] ''503''
       (\<lambda>e rest sc.
          (Inr (RBool True),
           respond ''257''
             (Str ([CHR 0x22] @ (case current_directory (snd sc) of
                                   None \<Rightarrow> ''None''
                                 | Some d \<Rightarrow> str_path d) @ [CHR 0x22])) sc))"

definition ftp_cwd_body :: handler where
  "ftp_cwd_body e rest sc =
     (case get_paths (snd sc) rest of
        Inl x \<Rightarrow> (Inl x, sc)
      | Inr (real_path, virtual_path) \<Rightarrow>
          (Inr (RBool True),
           respond ''250'' (Str '''') (fst sc, (snd sc)\<lparr>current_directory := Some virtual_path\<rparr>)))"

definition ftp_cwd :: handler where
  "ftp_cwd =
     ConnectionConditions [login_required] ''503''
       (PathConditions [path_must_exists, path_must_be_dir]
          (PathPermissions [readable_name] ftp_cwd_body))"

text \<open>The body of \<open>ftp_size\<close>: the size is asked of the path-I/O layer only after the
  transfer type has been checked.\<close>

definition ftp_size_body :: handler where
  "ftp_size_body e rest sc =
     (if transfer_type (snd sc) = Some ''A''
      then (Inr (RBool True), respond ''550'' (Str ''SIZE not allowed in ASCII mode'') sc)
      else (case get_paths (snd sc) rest of
              Inl x \<Rightarrow> (Inl x, sc)
            | Inr (real_path, virtual_path) \<Rightarrow>
                (case fs_size e real_path of
                   Inl x \<Rightarrow> (Inl x, log_io (IO_size real_path) sc)
                 | Inr file_size \<Rightarrow>
                     (Inr (RBool True),
                      respond ''213'' (Str (str_nat file_size)) (log_io (IO_size real_path) sc)))))"

definition ftp_size :: handler where
  "ftp_size =
     ConnectionConditions [login_required] ''503''
       (PathConditions [path_must_exists, path_must_be_file] ftp_size_body)"

definition ftp_noop :: handler where
  "ftp_noop =
     ConnectionConditions [login_required] ''503''
       (\<lambda>e rest sc. (Inr (RBool True), respond ''200'' (Str ''I successfully did nothing'') sc))"

definition ftp_type :: handler where
  "ftp_type =
     ConnectionConditions [login_required] ''503''
       (\<lambda>e rest sc.
          if rest = ''I'' \<or> rest = ''A''
          then (Inr (RBool True),
                respond ''200'' (Str '''') (fst sc, (snd sc)\<lparr>transfer_type := Some rest\<rparr>))
          else (Inr (RBool True),
                respond ''502'' (Str (''type '' @ repr rest @ '' not implemented'')) sc))"

definition ftp_pbsz :: handler where
  "ftp_pbsz =
     ConnectionConditions [login_required] ''503''
       (\<lambda>e rest sc. (Inr (RBool True), respond ''200'' (Str '''') sc))"

definition ftp_prot :: handler where
  "ftp_prot =
     ConnectionConditions [login_required] ''503''
       (\<lambda>e rest sc.
          if rest = ''P'' then (Inr (RBool True), respond ''200'' (Str '''') sc)
          else (Inr (RBool True), respond ''502'' (Str '''') sc))"

definition ftp_syst :: handler where
  "ftp_syst e rest sc = (Inr (RBool True), respond ''215'' (Str ''UNIX Type: L8'') sc)"

text \<open>\<open>ftp_rest\<close>: when \<open>int(rest)\<close> raises, nothing has been assigned or answered
  yet.\<close>

definition ftp_rest :: handler where
  "ftp_rest e rest sc =
     (if py_isdigit e rest
      then (case py_int e rest of
              Inl x \<Rightarrow> (Inl x, sc)
            | Inr n \<Rightarrow>
                (Inr (RBool True),
                 respond ''350'' (Str (''restarting at '' @ rest))
                   (fst sc, (snd sc)\<lparr>restart_offset := n\<rparr>)))
      else (Inr (RBool True),
            respond ''501'' (Str (''syntax error, can'' @ [CHR 0x27] @ ''t restart at '' @ repr rest))
              (fst sc, (snd sc)\<lparr>restart_offset := 0\<rparr>)))"

subsection \<open>Transfers\<close>

text \<open>
  \<open>ftp_stor\<close> with its \<open>mode\<close> argument (\<open>wb\<close> for STOR, \<open>ab\<close> for APPE) and
  \<open>ftp_retr\<close>. Each schedules a worker, which is run by the dispatcher; the worker
  reads \<open>connection.restart_offset\<close> when it runs.
\<close>

definition ftp_stor_body :: "string \<Rightarrow> handler" where
  "ftp_stor_body mode e rest sc =
     (case get_paths (snd sc) rest of
        Inl x \<Rightarrow> (Inl x, sc)
      | Inr (real_path, virtual_path) \<Rightarrow>
          (case fs_is_dir e (parent real_path) of
             Inl x \<Rightarrow> (Inl x, log_io (IO_is_dir (parent real_path)) sc)
           | Inr True \<Rightarrow>
               (Inr (RBool True),
                respond ''150'' (Str ''data transfer started'')
                  (case log_io (IO_is_dir (parent real_path)) sc of
                     (s, c) \<Rightarrow> (s, c\<lparr>extra_workers := extra_workers c @ [(stor_worker mode, real_path)]\<rparr>)))
           | Inr False \<Rightarrow>
               (Inr (RBool True),
                respond ''550'' (Str ''path unreachable'') (log_io (IO_is_dir (parent real_path)) sc))))"

definition ftp_stor_mode :: "string \<Rightarrow> handler" where
  "ftp_stor_mode mode =
     ConnectionConditions [login_required, passive_server_started] ''503''
       (PathPermissions [writable_name] (ftp_stor_body mode))"

definition ftp_stor :: handler where
  "ftp_stor = ftp_stor_mode ''wb''"

definition ftp_appe :: handler where
  "ftp_appe = ftp_stor_mode ''ab''"

definition ftp_retr_body :: handler where
  "ftp_retr_body e rest sc =
     (case get_paths (snd sc) rest of
        Inl x \<Rightarrow> (Inl x, sc)
      | Inr (real_path, virtual_path) \<Rightarrow>
          (Inr (RBool True),
           respond ''150'' (Str ''data transfer started'')
             (fst sc, (snd sc)\<lparr>extra_workers := extra_workers (snd sc) @ [(retr_worker, real_path)]\<rparr>)))"

definition ftp_retr :: handler where
  "ftp_retr =
     ConnectionConditions [login_required, passive_server_started] ''503''
       (PathConditions [path_must_exists, path_must_be_file]
          (PathPermissions [readable_name] ftp_retr_body))"

text \<open>
  The body of a transfer worker: it takes the data connection out of the session, opens
  the file, seeks to \<open>restart_offset\<close> when that is not zero, copies, and answers 226.
  The \<open>worker\<close> decorator drops the body's return value, so a worker task returns
  \<open>None\<close>.
\<close>

definition transfer_body :: "string \<Rightarrow> ppath \<Rightarrow> handler" where
  "transfer_body file_mode real_path e rest sc =
     (let sc1 = (fst sc, (snd sc)\<lparr>data_connection := None\<rparr>);
          sc2 = log_io (IO_open real_path file_mode) sc1
      in case fs_open e real_path file_mode of
           Inl x \<Rightarrow> (Inl x, sc2)
         | Inr _ \<Rightarrow>
             (let sc3 = (if restart_offset (snd sc2) \<noteq> 0
                         then log_io (IO_seek (restart_offset (snd sc2))) sc2 else sc2)
              in (Inr RNone, respond ''226'' (Str ''data transfer done'') (log_io IO_copy sc3))))"

fun run_worker :: "worker_kind \<times> ppath \<Rightarrow> handler" where
  "run_worker (stor_worker mode, real_path) =
     ConnectionConditions [data_connection_made] ''425''
       (\<lambda>e rest sc.
          transfer_body (if restart_offset (snd sc) \<noteq> 0 then ''r+b'' else mode) real_path e rest sc)"
| "run_worker (retr_worker, real_path) =
     ConnectionConditions [data_connection_made] ''425'' (transfer_body ''rb'' real_path)"

subsection \<open>Passive mode\<close>

text \<open>
  The loop of \<open>_start_passive_server\<close> over the pool. The \<open>raise NoAvailablePort\<close> for
  a port seen before stands inside the \<open>try\<close>: when \<open>NoAvailablePort\<close> is an
  \<open>OSError\<close> the \<open>except OSError\<close> clause puts the port back before re-raising (its
  errno is \<open>None\<close>); when it is not, the port taken from the queue is not put back.
\<close>

function start_passive_loop ::
  "env \<Rightarrow> nat set \<Rightarrow> port_queue \<Rightarrow> (exn + (sock list \<times> nat)) \<times> port_queue" where
  "start_passive_loop e viewed_ports q =
     (case get_nowait q of
        None \<Rightarrow> (Inl NoAvailablePort, q)
      | Some ((priority, port), q1) \<Rightarrow>
          if port \<in> viewed_ports then
            (if NoAvailablePort_is_OSError e
             then (Inl NoAvailablePort, put_nowait (priority + 1, port) q1)
             else (Inl NoAvailablePort, q1))
          else
            (case start_server e port of
               Inr passive \<Rightarrow> (Inr (passive, port), q1)
             | Inl err \<Rightarrow>
                 if err \<noteq> EADDRINUSE then (Inl (OSError err), put_nowait (priority + 1, port) q1)
                 else start_passive_loop e (insert port viewed_ports)
                        (put_nowait (priority + 1, port) q1)))"
  by pat_completeness auto

termination
proof (relation "measure (\<lambda>(e, viewed_ports, q). card (snd ` set q - viewed_ports))")
  show "wf (measure (\<lambda>(e, viewed_ports, q). card (snd ` set q - viewed_ports)))"
    by simp
next
  fix e :: env and viewed_ports :: "nat set" and q :: port_queue
    and x2 :: "(nat \<times> nat) \<times> port_queue" and x1 :: "nat \<times> nat" and q1 :: port_queue
    and priority port :: nat and err :: int
  assume g: "get_nowait q = Some x2" and x2: "(x1, q1) = x2" and x1: "(priority, port) = x1"
    and nv: "port \<notin> viewed_ports"
  from g x2 x1 have q: "q = (priority, port) # q1"
    by (auto simp: get_nowait_def split: list.splits)
  have "snd ` set (put_nowait (priority + 1, port) q1) - insert port viewed_ports
          \<subset> snd ` set q - viewed_ports"
    using nv by (auto simp: q put_nowait_def set_insort_key)
  then have "card (snd ` set (put_nowait (priority + 1, port) q1) - insert port viewed_ports)
               < card (snd ` set q - viewed_ports)"
    by (intro psubset_card_mono) auto
  then show "((e, insert port viewed_ports, put_nowait (priority + 1, port) q1), e, viewed_ports, q)
               \<in> measure (\<lambda>(e, viewed_ports, q). card (snd ` set q - viewed_ports))"
    by simp
qed

declare start_passive_loop.simps [simp del]

text \<open>\<open>_start_passive_server\<close>: from the pool when the server has one (the port found
  is stored in the connection), on \<open>connection.passive_server_port\<close> otherwise.\<close>

definition start_passive_server :: "env \<Rightarrow> state \<Rightarrow> (exn + sock list) \<times> state" where
  "start_passive_server e sc =
     (case available_data_ports (fst sc) of
        Some q \<Rightarrow>
          (case start_passive_loop e {} q of
             (Inl x, q1) \<Rightarrow> (Inl x, ((fst sc)\<lparr>available_data_ports := Some q1\<rparr>, snd sc))
           | (Inr (passive, port), q1) \<Rightarrow>
               (Inr passive,
                ((fst sc)\<lparr>available_data_ports := Some q1\<rparr>,
                 (snd sc)\<lparr>passive_server_port := port\<rparr>)))
      | None \<Rightarrow>
          (case start_server e (passive_server_port (snd sc)) of
             Inl err \<Rightarrow> (Inl (OSError err), sc)
           | Inr passive \<Rightarrow> (Inr passive, sc)))"

text \<open>The part PASV and EPSV share: start a listener unless the connection has one.
  \<open>NoAvailablePort\<close> is answered with 421 and the handler returns \<open>False\<close>; any other
  exception leaves the handler.\<close>

datatype passive_outcome = Refused | Failed exn | Listening string

definition obtain_passive_server :: "env \<Rightarrow> state \<Rightarrow> passive_outcome \<times> state" where
  "obtain_passive_server e sc =
     (if passive_server (snd sc) = None then
        (case start_passive_server e sc of
           (Inl x, sc1) \<Rightarrow>
             if x = NoAvailablePort then (Refused, respond ''421'' (Lines [''no free ports'']) sc1)
             else (Failed x, sc1)
         | (Inr passive, sc1) \<Rightarrow>
             (Listening ''listen socket created'',
              (fst sc1, (snd sc1)\<lparr>passive_server := Some passive\<rparr>)))
      else (Listening ''listen socket already exists'', sc))"

text \<open>\<open>data_connection.close()\<close> and \<open>data_connection = None\<close> for a stale data
  connection.\<close>

definition drop_data_connection :: "state \<Rightarrow> state" where
  "drop_data_connection sc =
     (if data_connection (snd sc) \<noteq> None then (fst sc, (snd sc)\<lparr>data_connection := None\<rparr>) else sc)"

definition ftp_pasv_body :: handler where
  "ftp_pasv_body e rest sc =
     (case obtain_passive_server e sc of
        (Refused, sc1) \<Rightarrow> (Inr (RBool False), sc1)
      | (Failed x, sc1) \<Rightarrow> (Inl x, sc1)
      | (Listening line, sc1) \<Rightarrow>
          (case passive_server (snd sc1) of
             None \<Rightarrow> (Inl AttributeError, sc1)
           | Some socks \<Rightarrow>
               (case find (\<lambda>s. sock_family s = AF_INET) socks of
                  None \<Rightarrow>
                    (Inr (RBool False),
                     respond ''503'' (Lines [''this server started in ipv6 mode'']) sc1)
                | Some s \<Rightarrow>
                    (let host = (case ipv4_pasv_forced_response_address (fst sc1) of
                                   Some forced \<Rightarrow> forced
                                 | None \<Rightarrow> sock_host s);
                         nums = host @ [sock_port s div 256, sock_port s mod 256]
                     in (Inr (RBool True),
                         respond ''227''
                           (Lines [line, ''('' @ str_join '','' (map str_nat nums) @ '')''])
                           (drop_data_connection sc1))))))"

definition ftp_pasv :: handler where
  "ftp_pasv = ConnectionConditions [login_required] ''503'' ftp_pasv_body"

definition ftp_epsv_body :: handler where
  "ftp_epsv_body e rest sc =
     (if rest \<noteq> []
      then (Inr (RBool False),
            respond ''522'' (Lines [''custom protocols support not implemented'']) sc)
      else
        (case obtain_passive_server e sc of
           (Refused, sc1) \<Rightarrow> (Inr (RBool False), sc1)
         | (Failed x, sc1) \<Rightarrow> (Inl x, sc1)
         | (Listening line, sc1) \<Rightarrow>
             (case passive_server (snd sc1) of
                None \<Rightarrow> (Inl AttributeError, sc1)
              | Some socks \<Rightarrow>
                  (case find (\<lambda>s. sock_family s = AF_INET \<or> sock_family s = AF_INET6) socks of
                     None \<Rightarrow> (Inl UnboundLocalError, sc1)
                   | Some s \<Rightarrow>
                       (Inr (RBool True),
                        respond ''229''
                          (Lines [line @ '' (|||'' @ str_nat (sock_port s) @ ''|)''])
                          (drop_data_connection sc1))))))"

definition ftp_epsv :: handler where
  "ftp_epsv = ConnectionConditions [login_required] ''503'' ftp_epsv_body"

section \<open>Session dispatcher\<close>

text \<open>
  \<open>commands_mapping\<close>, in the order of the source. The handlers that need the user
  manager, directory listings or file mutations are taken as a parameter \<open>others\<close>,
  indexed by the command name.
\<close>

definition commands_table :: "(string \<Rightarrow> handler) \<Rightarrow> (string \<times> handler) list" where
  "commands_table others =
     [(''abor'', others ''abor''),
      (''appe'', ftp_appe),
      (''cdup'', others ''cdup''),
      (''cwd'', ftp_cwd),
      (''dele'', others ''dele''),
      (''epsv'', ftp_epsv),
      (''list'', others ''list''),
      (''mkd'', others ''mkd''),
      (''mlsd'', others ''mlsd''),
      (''mlst'', others ''mlst''),
      (''pass'', others ''pass''),
      (''pasv'', ftp_pasv),
      (''pbsz'', ftp_pbsz),
      (''prot'', ftp_prot),
      (''pwd'', ftp_pwd),
      (''quit'', ftp_quit),
      (''rest'', ftp_rest),
      (''retr'', ftp_retr),
      (''rmd'', others ''rmd''),
      (''rnfr'', others ''rnfr''),
      (''rnto'', others ''rnto''),
      (''stor'', ftp_stor),
      (''syst'', ftp_syst),
      (''type'', ftp_type),
      (''user'', others ''user''),
      (''size'', ftp_size),
      (''noop'', ftp_noop)]"

definition commands_mapping :: "(string \<Rightarrow> handler) \<Rightarrow> string \<Rightarrow> handler option" where
  "commands_mapping others = map_of (commands_table others)"

text \<open>
  What the dispatcher does with the result of a finished task: a \<open>PathIOError\<close> is
  answered with 451 and the loop goes on; any other exception leaves the loop; the
  boolean \<open>False\<close> makes the dispatcher return; everything else lets it go on.
\<close>

datatype loop_status = Continue | Stop

definition task_result :: "(exn + ret) \<times> state \<Rightarrow> loop_status \<times> state" where
  "task_result r =
     (case r of
        (Inl x, sc) \<Rightarrow>
          if x = PathIOError then (Continue, respond ''451'' (Str ''file system error'') sc)
          else (Stop, sc)
      | (Inr (RBool b), sc) \<Rightarrow> if \<not> b then (Stop, sc) else (Continue, sc)
      | (Inr RNone, sc) \<Rightarrow> (Continue, sc))"

text \<open>The workers scheduled in \<open>connection.extra_workers\<close> are run in turn; each is
  taken out of the set when it is done.\<close>

fun run_workers :: "env \<Rightarrow> (worker_kind \<times> ppath) list \<Rightarrow> state \<Rightarrow> loop_status \<times> state" where
  "run_workers e [] sc = (Continue, sc)"
| "run_workers e (w # ws) sc =
     (case task_result (run_worker w e [] (fst sc, (snd sc)\<lparr>extra_workers := ws\<rparr>)) of
        (Stop, sc1) \<Rightarrow> (Stop, sc1)
      | (Continue, sc1) \<Rightarrow> run_workers e ws sc1)"

text \<open>
  One parsed command \<open>(cmd, rest)\<close>. The handler is created as a task and
  \<open>restart_offset\<close> is reset right after, before the dispatcher awaits again: the
  handler therefore runs on the connection with the offset already reset. Commands are
  handled one after the other: a handler and the workers it scheduled finish before
  the next command is read.
\<close>

definition dispatch_command ::
  "(string \<Rightarrow> handler option) \<Rightarrow> env \<Rightarrow> string \<times> string \<Rightarrow> state \<Rightarrow> loop_status \<times> state" where
  "dispatch_command mapping e parsed sc =
     (case parsed of
        (cmd, rest) \<Rightarrow>
          (case mapping cmd of
             Some f \<Rightarrow>
               (let sc1 = (if cmd \<notin> set [''retr'', ''stor'', ''appe'']
                           then (fst sc, (snd sc)\<lparr>restart_offset := 0\<rparr>) else sc)
                in case task_result (f e rest sc1) of
                     (Stop, sc2) \<Rightarrow> (Stop, sc2)
                   | (Continue, sc2) \<Rightarrow> run_workers e (extra_workers (snd sc2)) sc2)
           | None \<Rightarrow> (Continue, respond ''502'' (Str (repr cmd @ '' not implemented'')) sc)))"

text \<open>An event of a session: a parsed command, or a client connecting to the passive
  listener (the accept handler keeps the first data connection only).\<close>

datatype event = Command string string | DataConnect

definition accept_data_connection :: "state \<Rightarrow> state" where
  "accept_data_connection sc =
     (if passive_server (snd sc) \<noteq> None \<and> data_connection (snd sc) = None
      then (fst sc, (snd sc)\<lparr>data_connection := Some ()\<rparr>) else sc)"

definition dispatch_event ::
  "(string \<Rightarrow> handler option) \<Rightarrow> env \<times> event \<Rightarrow> state \<Rightarrow> loop_status \<times> state" where
  "dispatch_event mapping ev sc =
     (case ev of
        (e, Command cmd rest) \<Rightarrow> dispatch_command mapping e (cmd, rest) sc
      | (e, DataConnect) \<Rightarrow> (Continue, accept_data_connection sc))"

text \<open>The \<open>while True\<close> loop over the events of a session, each with the environment
  as it is then. When the events end the client has gone: \<open>parse_command\<close> raises
  \<open>ConnectionResetError\<close>, which leaves the loop.\<close>

fun dispatcher_loop ::
  "(string \<Rightarrow> handler option) \<Rightarrow> (env \<times> event) list \<Rightarrow> state \<Rightarrow> state" where
  "dispatcher_loop mapping [] sc = sc"
| "dispatcher_loop mapping (ev # evs) sc =
     (case dispatch_event mapping ev sc of
        (Stop, sc1) \<Rightarrow> sc1
      | (Continue, sc1) \<Rightarrow> dispatcher_loop mapping evs sc1)"

text \<open>The \<open>finally\<close> block: the port of a listener goes back to the pool with priority
  0, and the global slot is released.\<close>

definition teardown :: "state \<Rightarrow> Server" where
  "teardown sc =
     (let s1 = (if passive_server (snd sc) \<noteq> None
                then (case available_data_ports (fst sc) of
                        Some q \<Rightarrow>
                          (fst sc)\<lparr>available_data_ports :=
                                     Some (put_nowait (0, passive_server_port (snd sc)) q)\<rparr>
                      | None \<Rightarrow> fst sc)
                else fst sc)
      in if acquired (snd sc)
         then s1\<lparr>available_connections := snd (release (available_connections s1))\<rparr>
         else s1)"

definition greeting :: "state \<Rightarrow> (exn + ret) \<times> state" where
  "greeting sc =
     (if locked (available_connections (fst sc))
      then (Inr (RBool False), respond ''421'' (Str ''Too many connections'') sc)
      else (case acquire (available_connections (fst sc)) of
              (r, a) \<Rightarrow>
                (case r of
                   Inl x \<Rightarrow>
                     (Inl x, ((fst sc)\<lparr>available_connections := a\<rparr>, (snd sc)\<lparr>acquired := True\<rparr>))
                 | Inr _ \<Rightarrow>
                     (Inr (RBool True),
                      respond ''220'' (Str ''welcome'')
                        ((fst sc)\<lparr>available_connections := a\<rparr>, (snd sc)\<lparr>acquired := True\<rparr>)))))"

text \<open>A whole session: greeting, loop, teardown. The result is the server afterwards
  and the connection as it was when the loop ended.\<close>

definition dispatcher ::
  "(string \<Rightarrow> handler option) \<Rightarrow> (env \<times> event) list \<Rightarrow> Server \<Rightarrow> Server \<times> Connection" where
  "dispatcher mapping evs s =
     (case task_result (greeting (s, Connection_init)) of
        (Stop, sc1) \<Rightarrow> (teardown sc1, snd sc1)
      | (Continue, sc1) \<Rightarrow>
          (let sc2 = dispatcher_loop mapping evs sc1 in (teardown sc2, snd sc2)))"

section \<open>Several sessions on one server\<close>








text \<open>What a handler leaves alone: a projection of the state is preserved by a handler,
  in the environments that satisfy \<open>P\<close>, when the state after the handler projects to
  the same value. A projection is unobserved by answering and logging when \<open>respond\<close>
  and \<open>log_io\<close> preserve it.\<close>

definition preserves :: "(env \<Rightarrow> bool) \<Rightarrow> (state \<Rightarrow> 'a) \<Rightarrow> handler \<Rightarrow> bool" where
  "preserves P proj f = (\<forall>e rest sc. P e \<longrightarrow> proj (snd (f e rest sc)) = proj sc)"

definition unobserved :: "(state \<Rightarrow> 'a) \<Rightarrow> bool" where
  "unobserved proj =
     ((\<forall>code i sc. proj (respond code i sc) = proj sc) \<and> (\<forall>call sc. proj (log_io call sc) = proj sc))"

definition restart_offset_of :: "state \<Rightarrow> int" where
  "restart_offset_of sc = restart_offset (snd sc)"






section \<open>Example values\<close>

text \<open>A user jailed in \<open>/srv/ftp\<close> with four permissions, a logged-in connection of
  that user at \<open>/\<close>, and an environment in which \<open>/srv/ftp/etc\<close> is a directory,
  \<open>/srv/ftp/f\<close> a file of 5 bytes, no port can be bound, and the interpreter has
  its default limit of 4300 digits.\<close>

definition example_permissions :: "Permission list" where
  "example_permissions =
     [\<lparr>path = PurePosixPath ''/'', readable = True, writable = True\<rparr>,
      \<lparr>path = PurePosixPath ''/a'', readable = True, writable = False\<rparr>,
      \<lparr>path = PurePosixPath ''/a/b'', readable = False, writable = True\<rparr>,
      \<lparr>path = PurePosixPath ''/a'', readable = False, writable = False\<rparr>]"

definition example_user :: User where
  "example_user =
     \<lparr>login = Some ''u'', password = Some ''p'', base_path = PurePosixPath ''/srv/ftp'',
      home_path = PurePosixPath ''/'', permissions = example_permissions,
      maximum_connections = Some 10\<rparr>"

definition example_connection :: Connection where
  "example_connection =
     Connection_init\<lparr>user := Some example_user, logged := Some True,
                     current_directory := Some (PurePosixPath ''/''), acquired := True\<rparr>"

definition example_env :: env where
  "example_env =
     \<lparr>fs_exists = (\<lambda>p. Inr (p = PurePosixPath ''/srv/ftp/etc'' \<or> p = PurePosixPath ''/srv/ftp/f'')),
      fs_is_dir = (\<lambda>p. Inr (p = PurePosixPath ''/srv/ftp/etc'' \<or> p = PurePosixPath ''/srv/ftp'')),
      fs_is_file = (\<lambda>p. Inr (p = PurePosixPath ''/srv/ftp/f'')),
      fs_size = (\<lambda>p. Inr 5),
      fs_open = (\<lambda>p m. Inr ()),
      start_server = (\<lambda>port. Inl EADDRINUSE),
      NoAvailablePort_is_OSError = True,
      str_isdigit = (\<lambda>s. False),
      str_int = (\<lambda>s. Inl ValueError),
      int_max_str_digits = 4300\<rparr>"

text \<open>The same user on a Windows host, jailed in the directory \<open>srv/ftp\<close> of drive
  \<open>C:\<close>, and two client paths with backslashes: two \<open>..\<close> and \<open>x\<close> joined by
  backslashes, and \<open>x\<close> after one backslash.\<close>

definition example_windows_connection :: Connection where
  "example_windows_connection =
     example_connection\<lparr>user := Some (example_user\<lparr>base_path :=
       \<lparr>p_root = [CHR ''C'', CHR '':'', CHR 0x5C], p_tail = [''srv'', ''ftp'']\<rparr>\<rparr>)\<rparr>"

definition example_backslash_path :: string where
  "example_backslash_path = ''..'' @ [CHR 0x5C] @ ''..'' @ [CHR 0x5C] @ ''x''"

definition example_rooted_path :: string where
  "example_rooted_path = [CHR 0x5C] @ ''x''"

definition example_server :: Server where
  "example_server = Server_init (Some 512) None (Some [50000, 50001])"

text \<open>
  Float operations for timestamps that are multiples of one half and small: on such
  values the float difference and the product with a small integer are exact, so they
  are the difference and the product of the reals, and \<open>round\<close> is Python's, to the
  nearest integer with a tie going to the even one. A throttle of 1 byte per second that
  has counted 100 bytes since time 0.0.
\<close>

definition py_round :: "real \<Rightarrow> int" where
  "py_round x =
     (let f = \<lfloor>x\<rfloor>; d = x - of_int f
      in if d < 1 / 2 then f else if 1 / 2 < d then f + 1 else if even f then f else f + 1)"

definition example_float_ops :: "real float_ops" where
  "example_float_ops =
     \<lparr>fl_sub = (\<lambda>a b. a - b), fl_mul_int = (\<lambda>a l. Inr (a * of_int l)),
      fl_less = (\<lambda>a b. a < b), fl_round = (\<lambda>a. Inr (py_round a))\<rparr>"

definition example_throttle :: "real Throttle" where
  "example_throttle = \<lparr>t_limit = Some 1, reset_rate = 10, t_start = Some 0, t_sum = 100\<rparr>"

text \<open>The same environment with every port free: the listener is one IPv4 socket on
  127.0.0.1. And handlers for the commands that are not modelled: each answers like
  \<open>SYST\<close>.\<close>

definition example_env_free :: env where
  "example_env_free =
     example_env\<lparr>start_server :=
       (\<lambda>port. Inr [\<lparr>sock_family = AF_INET, sock_host = [127, 0, 0, 1], sock_port = port\<rparr>])\<rparr>"



definition example_others :: "string \<Rightarrow> handler" where
  "example_others cmd = ftp_syst"

text \<open>A session that opens a listener, restarts at 3 and stores twice, the client
  connecting to the listener before each transfer.\<close>

definition example_transfers :: "(env \<times> event) list" where
  "example_transfers =
     [(example_env_free, Command ''pasv'' []),
      (example_env_free, DataConnect),
      (example_env_free, Command ''rest'' ''3''),
      (example_env_free, Command ''stor'' ''f''),
      (example_env_free, DataConnect),
      (example_env_free, Command ''stor'' ''f'')]"

section \<open>Paths\<close>

lemma split_sep_nonempty: "split_sep s \<noteq> []"
  by (induction s) auto

lemma split_sep_no_sep: "x \<in> set (split_sep s) \<Longrightarrow> CHR ''/'' \<notin> set x"
proof (induction s arbitrary: x)
  case Nil
  then show ?case by simp
next
  case (Cons c cs)
  obtain w ws where ws: "split_sep cs = w # ws"
    using split_sep_nonempty [of cs] by (cases "split_sep cs") auto
  show ?case
  proof (cases "c = CHR ''/''")
    case True
    with Cons show ?thesis by auto
  next
    case False
    with Cons.prems ws have "x = c # w \<or> x \<in> set ws" by auto
    then show ?thesis
      using Cons.IH [of w] Cons.IH [of x] ws False by auto
  qed
qed

lemma split_sep_single: "CHR ''/'' \<notin> set x \<Longrightarrow> split_sep x = [x]"
  by (induction x) auto

lemma splitroot_relative: "x \<noteq> [] \<Longrightarrow> CHR ''/'' \<notin> set x \<Longrightarrow> splitroot x = ([], x)"
  by (cases x) (auto simp: splitroot_def)

lemma PurePosixPath_clean_part:
  "clean_part x \<Longrightarrow> PurePosixPath x = \<lparr>p_root = [], p_tail = [x]\<rparr>"
  by (simp add: PurePosixPath_def clean_part_def splitroot_relative split_sep_single)

lemma splitroot_root:
  "fst (splitroot s) = [] \<or> fst (splitroot s) = ''/'' \<or> fst (splitroot s) = ''//''"
proof (cases s)
  case Nil
  then show ?thesis by (simp add: splitroot_def)
next
  case (Cons a as)
  then show ?thesis by (cases as) (auto simp: splitroot_def)
qed

lemma PurePosixPath_tail_clean: "list_all clean_part (p_tail (PurePosixPath s))"
  by (auto simp: PurePosixPath_def list_all_iff clean_part_def split: prod.splits
           dest: split_sep_no_sep)

lemma wf_PurePosixPath: "wf_path (PurePosixPath s)"
  using splitroot_root [of s] PurePosixPath_tail_clean [of s]
  by (auto simp: wf_path_def PurePosixPath_def split: prod.splits)

lemma PurePosixPath_slash: "PurePosixPath ''/'' = \<lparr>p_root = ''/'', p_tail = []\<rparr>"
  by (simp add: PurePosixPath_def splitroot_def)

lemma jailed_parent: "jailed r \<Longrightarrow> jailed (parent r)"
  by (auto simp: jailed_def parent_def list_all_iff dest: in_set_butlastD)

lemma jailed_truediv:
  "jailed r \<Longrightarrow> clean_part x \<Longrightarrow> x \<noteq> ''..'' \<Longrightarrow> jailed (truediv r (PurePosixPath x))"
  by (simp add: PurePosixPath_clean_part truediv_def is_absolute_def jailed_def)

lemma jailed_resolve_loop:
  "jailed r \<Longrightarrow> list_all clean_part ps \<Longrightarrow> jailed (resolve_loop r ps)"
  by (induction ps arbitrary: r) (auto simp: jailed_parent jailed_truediv)

text \<open>What \<open>get_paths\<close> returns for a well-formed current directory, on any host.\<close>

lemma get_paths_host_resolved:
  assumes u: "user c = Some u" and cwd: "current_directory c = Some cwd"
    and wf: "wf_path cwd" and ab: "is_absolute cwd" and wfv: "wf_path v"
  shows "(let virtual_path =
            resolve_loop (PurePosixPath ''/'') (p_tail (if is_absolute v then v else truediv cwd v))
          in jailed virtual_path
             \<and> get_paths_host hdiv hrel c v =
                 (let real_path = hdiv (base_path u) \<lparr>p_root = [], p_tail = p_tail virtual_path\<rparr>
                  in case hrel real_path (base_path u) of
                       Inl x \<Rightarrow>
                         if x = ValueError then Inr (base_path u, PurePosixPath ''/'') else Inl x
                     | Inr _ \<Rightarrow> Inr (real_path, virtual_path)))"
proof -
  define vp where "vp = (if is_absolute v then v else truediv cwd v)"
  have vp_abs: "is_absolute vp" and vp_clean: "list_all clean_part (p_tail vp)"
    using wf ab wfv by (auto simp: vp_def truediv_def is_absolute_def wf_path_def)
  define r where "r = resolve_loop (PurePosixPath ''/'') (drop 1 (parts vp))"
  have d: "drop 1 (parts vp) = p_tail vp"
    using vp_abs by (simp add: parts_def is_absolute_def)
  have r_eq: "r = resolve_loop (PurePosixPath ''/'') (p_tail vp)"
    unfolding r_def d ..
  have "jailed (PurePosixPath ''/'')"
    by (simp add: jailed_def PurePosixPath_slash)
  then have jr: "jailed r"
    unfolding r_eq using vp_clean jailed_resolve_loop by simp
  have rel: "relative_to r (PurePosixPath ''/'') = Inr \<lparr>p_root = [], p_tail = p_tail r\<rparr>"
    using jr by (simp add: relative_to_def jailed_def PurePosixPath_slash)
  have vp_eq: "(if \<not> is_absolute v
                 then (case current_directory c of None \<Rightarrow> Inl TypeError
                       | Some cwd \<Rightarrow> Inr (truediv cwd v))
                 else Inr v) = Inr vp"
    using cwd by (simp add: vp_def)
  have step: "get_paths_host hdiv hrel c v =
      (case user c of
         None \<Rightarrow> Inl AttributeError
       | Some u \<Rightarrow>
           (case relative_to r (PurePosixPath ''/'') of
              Inl e \<Rightarrow> Inl e
            | Inr rel \<Rightarrow>
                (let real_path = hdiv (base_path u) rel
                 in case hrel real_path (base_path u) of
                      Inl x \<Rightarrow>
                        if x = ValueError then Inr (base_path u, PurePosixPath ''/'') else Inl x
                    | Inr _ \<Rightarrow> Inr (real_path, r))))"
    unfolding get_paths_host_def vp_eq r_def by (simp only: sum.case Let_def)
  have "get_paths_host hdiv hrel c v =
      (let real_path = hdiv (base_path u) \<lparr>p_root = [], p_tail = p_tail r\<rparr>
       in case hrel real_path (base_path u) of
            Inl x \<Rightarrow> if x = ValueError then Inr (base_path u, PurePosixPath ''/'') else Inl x
          | Inr _ \<Rightarrow> Inr (real_path, r))"
    unfolding step u rel option.case sum.case ..
  then show ?thesis
    using jr unfolding vp_def [symmetric] r_eq [symmetric] by (simp only: Let_def simp_thms)
qed

text \<open>On a POSIX host the resolved virtual path is returned with the base path
  extended by its components: the \<open>except ValueError\<close> branch is never taken.\<close>

lemma get_paths_of_jail:
  assumes u: "user c = Some u" and cwd: "current_directory c = Some cwd"
    and wf: "wf_path cwd" and ab: "is_absolute cwd" and wfv: "wf_path v"
  shows "\<exists>real virt. get_paths_of c v = Inr (real, virt)
           \<and> jailed virt
           \<and> real = \<lparr>p_root = p_root (base_path u), p_tail = p_tail (base_path u) @ p_tail virt\<rparr>
           \<and> relative_to real (base_path u) = Inr \<lparr>p_root = [], p_tail = p_tail virt\<rparr>"
proof -
  define r where
    "r = resolve_loop (PurePosixPath ''/'') (p_tail (if is_absolute v then v else truediv cwd v))"
  have jr: "jailed r"
    and g: "get_paths_host truediv relative_to c v =
      (let real_path = truediv (base_path u) \<lparr>p_root = [], p_tail = p_tail r\<rparr>
       in case relative_to real_path (base_path u) of
            Inl x \<Rightarrow> if x = ValueError then Inr (base_path u, PurePosixPath ''/'') else Inl x
          | Inr _ \<Rightarrow> Inr (real_path, r))"
    using get_paths_host_resolved [OF assms, of truediv relative_to]
    unfolding r_def [symmetric] by (simp_all only: Let_def)
  have "get_paths_of c v =
          Inr (\<lparr>p_root = p_root (base_path u), p_tail = p_tail (base_path u) @ p_tail r\<rparr>, r)"
    unfolding get_paths_of_def g
    by (simp add: truediv_def is_absolute_def relative_to_def)
  then show ?thesis using jr by (simp add: relative_to_def)
qed



section \<open>C1: the path jail\<close>

text \<open>
  Claim C1. For a connection whose user has base path \<open>B\<close> and whose current directory
  is an absolute (well-formed) virtual path, and every client string \<open>P\<close>. On any
  host, the virtual path that \<open>get_paths\<close> resolves is rooted at \<open>/\<close> and free of
  \<open>..\<close>, and the result is decided by the host's \<open>relative_to\<close> alone: the
  composition of \<open>B\<close> with the components of the virtual path when it accepts that
  composition, the clamp \<open>(B, /)\<close> when it raises \<open>ValueError\<close>. On a POSIX host the
  real path is \<open>B\<close> extended by the components of the virtual path, so \<open>B\<close> or a
  descendant of \<open>B\<close>: no sequence of \<open>..\<close> in \<open>P\<close> leads outside \<open>B\<close>.
\<close>

theorem get_paths_jail:
  assumes "user c = Some u" and "current_directory c = Some cwd"
    and "wf_path cwd" and "is_absolute cwd"
  shows "(let virtual_path =
            resolve_loop (PurePosixPath ''/'')
              (p_tail (if is_absolute (PurePosixPath P) then PurePosixPath P
                       else truediv cwd (PurePosixPath P)))
          in jailed virtual_path
             \<and> get_paths_host hdiv hrel c (PurePosixPath P) =
                 (let real_path = hdiv (base_path u) \<lparr>p_root = [], p_tail = p_tail virtual_path\<rparr>
                  in case hrel real_path (base_path u) of
                       Inl x \<Rightarrow>
                         if x = ValueError then Inr (base_path u, PurePosixPath ''/'') else Inl x
                     | Inr _ \<Rightarrow> Inr (real_path, virtual_path)))
         \<and> (\<exists>real_path virtual_path.
               get_paths c P = Inr (real_path, virtual_path)
               \<and> is_relative_to real_path (base_path u)
               \<and> p_root real_path = p_root (base_path u)
               \<and> p_tail real_path = p_tail (base_path u) @ p_tail virtual_path
               \<and> ''..'' \<notin> set (p_tail virtual_path)
               \<and> is_absolute virtual_path \<and> wf_path virtual_path \<and> jailed virtual_path)"
proof -
  obtain real virt where r: "get_paths_of c (PurePosixPath P) = Inr (real, virt)"
    and j: "jailed virt"
    and real: "real = \<lparr>p_root = p_root (base_path u), p_tail = p_tail (base_path u) @ p_tail virt\<rparr>"
    and rel: "relative_to real (base_path u) = Inr \<lparr>p_root = [], p_tail = p_tail virt\<rparr>"
    using get_paths_of_jail [OF assms wf_PurePosixPath [of P]] by blast
  have posix: "\<exists>real_path virtual_path.
               get_paths c P = Inr (real_path, virtual_path)
               \<and> is_relative_to real_path (base_path u)
               \<and> p_root real_path = p_root (base_path u)
               \<and> p_tail real_path = p_tail (base_path u) @ p_tail virtual_path
               \<and> ''..'' \<notin> set (p_tail virtual_path)
               \<and> is_absolute virtual_path \<and> wf_path virtual_path \<and> jailed virtual_path"
    using r j real rel
    by (auto simp: get_paths_def is_relative_to_def jailed_def is_absolute_def wf_path_def)
  show ?thesis
    using get_paths_host_resolved [OF assms wf_PurePosixPath [of P], of hdiv hrel] posix
    by blast
qed

lemma PurePosixPath_backslash:
  "PurePosixPath example_backslash_path = \<lparr>p_root = [], p_tail = [example_backslash_path]\<rparr>"
  "PurePosixPath example_rooted_path = \<lparr>p_root = [], p_tail = [example_rooted_path]\<rparr>"
  by (simp_all add: PurePosixPath_def splitroot_def example_backslash_path_def
      example_rooted_path_def)

lemma windows_truediv_backslash:
  "windows_truediv \<lparr>p_root = [CHR ''C'', CHR '':'', CHR 0x5C], p_tail = [''srv'', ''ftp'']\<rparr>
     \<lparr>p_root = [], p_tail = [example_backslash_path]\<rparr>
   = \<lparr>p_root = [CHR ''C'', CHR '':'', CHR 0x5C], p_tail = [''srv'', ''ftp'', ''..'', ''..'', ''x'']\<rparr>"
  "windows_truediv \<lparr>p_root = [CHR ''C'', CHR '':'', CHR 0x5C], p_tail = [''srv'', ''ftp'']\<rparr>
     \<lparr>p_root = [], p_tail = [example_rooted_path]\<rparr>
   = \<lparr>p_root = [CHR ''C'', CHR '':'', CHR 0x5C], p_tail = [''x'']\<rparr>"
  by (simp_all add: windows_truediv_def parts_def windows_pieces_def example_backslash_path_def
      example_rooted_path_def)

lemma windows_relative_to_example:
  "windows_relative_to
     \<lparr>p_root = [CHR ''C'', CHR '':'', CHR 0x5C], p_tail = [''srv'', ''ftp'', ''..'', ''..'', ''x'']\<rparr>
     \<lparr>p_root = [CHR ''C'', CHR '':'', CHR 0x5C], p_tail = [''srv'', ''ftp'']\<rparr>
   = Inr \<lparr>p_root = [], p_tail = [''..'', ''..'', ''x'']\<rparr>"
  "windows_relative_to \<lparr>p_root = [CHR ''C'', CHR '':'', CHR 0x5C], p_tail = [''x'']\<rparr>
     \<lparr>p_root = [CHR ''C'', CHR '':'', CHR 0x5C], p_tail = [''srv'', ''ftp'']\<rparr>
   = Inl ValueError"
  by (simp_all add: windows_relative_to_def ascii_lower_def)

theorem get_paths_jail_witness:
  "user example_windows_connection
     = Some (example_user\<lparr>base_path := \<lparr>p_root = [CHR ''C'', CHR '':'', CHR 0x5C], p_tail = [''srv'', ''ftp'']\<rparr>\<rparr>)
   \<and> user example_connection = Some example_user
   \<and> current_directory example_windows_connection = Some (PurePosixPath ''/'')
   \<and> current_directory example_connection = Some (PurePosixPath ''/'')
   \<and> wf_path (PurePosixPath ''/'') \<and> is_absolute (PurePosixPath ''/'')
   \<and> get_paths_host windows_truediv windows_relative_to example_windows_connection
         (PurePosixPath example_rooted_path)
       = Inr (\<lparr>p_root = [CHR ''C'', CHR '':'', CHR 0x5C], p_tail = [''srv'', ''ftp'']\<rparr>, PurePosixPath ''/'')
   \<and> (\<exists>real_path virtual_path.
           get_paths example_connection ''../../../etc/passwd'' = Inr (real_path, virtual_path)
           \<and> is_relative_to real_path (base_path example_user)
           \<and> p_root real_path = p_root (base_path example_user)
           \<and> p_tail real_path = p_tail (base_path example_user) @ p_tail virtual_path
           \<and> ''..'' \<notin> set (p_tail virtual_path)
           \<and> is_absolute virtual_path \<and> wf_path virtual_path \<and> jailed virtual_path)"
proof -
  let ?B = "\<lparr>p_root = [CHR ''C'', CHR '':'', CHR 0x5C], p_tail = [''srv'', ''ftp'']\<rparr>"
  have h1: "user example_windows_connection = Some (example_user\<lparr>base_path := ?B\<rparr>)"
    and h1': "user example_connection = Some example_user"
    and h2: "current_directory example_windows_connection = Some (PurePosixPath ''/'')"
    and h2': "current_directory example_connection = Some (PurePosixPath ''/'')"
    by (simp_all add: example_windows_connection_def example_connection_def Connection_init_def)
  have h3: "wf_path (PurePosixPath ''/'')" by (rule wf_PurePosixPath)
  have h4: "is_absolute (PurePosixPath ''/'')" by (simp add: PurePosixPath_slash is_absolute_def)
  have ne: "example_rooted_path \<noteq> ''..''" by (simp add: example_rooted_path_def)
  have cl: "PurePosixPath example_rooted_path = \<lparr>p_root = [], p_tail = [example_rooted_path]\<rparr>"
    by (rule PurePosixPath_backslash)
  have w: "get_paths_host windows_truediv windows_relative_to example_windows_connection
         (PurePosixPath example_rooted_path)
       = Inr (?B, PurePosixPath ''/'')"
    using get_paths_jail [OF h1 h2 h3 h4, where P = example_rooted_path
        and hdiv = windows_truediv and hrel = windows_relative_to]
    by (simp add: Let_def cl is_absolute_def PurePosixPath_slash ne truediv_def
        windows_truediv_backslash windows_relative_to_example)
  show ?thesis
    using get_paths_jail [OF h1' h2' h3 h4, of "''../../../etc/passwd''"] w h1 h1' h2 h2' h3 h4
    by blast
qed

text \<open>On a Windows host, with the base path \<open>srv/ftp\<close> on drive \<open>C:\<close> and the current
  directory \<open>/\<close>: the client path made of \<open>..\<close>, \<open>..\<close> and \<open>x\<close> joined by backslashes
  is one component of a POSIX path, so the resolver keeps it; the Windows flavour splits
  it when it composes the real path, and its \<open>relative_to\<close> accepts the result, which
  begins with the components of the base path. The real path returned is not clamped,
  and the file it names is \<open>x\<close> at the root of the drive, outside the base path.\<close>

theorem windows_backslash_path_leaves_base:
  "get_paths_host windows_truediv windows_relative_to example_windows_connection
         (PurePosixPath example_backslash_path)
     = Inr (\<lparr>p_root = [CHR ''C'', CHR '':'', CHR 0x5C], p_tail = [''srv'', ''ftp'', ''..'', ''..'', ''x'']\<rparr>,
            \<lparr>p_root = ''/'', p_tail = [example_backslash_path]\<rparr>)
   \<and> win32_normalize \<lparr>p_root = [CHR ''C'', CHR '':'', CHR 0x5C], p_tail = [''srv'', ''ftp'', ''..'', ''..'', ''x'']\<rparr>
     = \<lparr>p_root = [CHR ''C'', CHR '':'', CHR 0x5C], p_tail = [''x'']\<rparr>
   \<and> windows_relative_to \<lparr>p_root = [CHR ''C'', CHR '':'', CHR 0x5C], p_tail = [''x'']\<rparr>
         \<lparr>p_root = [CHR ''C'', CHR '':'', CHR 0x5C], p_tail = [''srv'', ''ftp'']\<rparr>
     = Inl ValueError"
proof -
  have ne: "example_backslash_path \<noteq> ''..''" by (simp add: example_backslash_path_def)
  have a: "get_paths_host windows_truediv windows_relative_to example_windows_connection
         (PurePosixPath example_backslash_path)
     = Inr (\<lparr>p_root = [CHR ''C'', CHR '':'', CHR 0x5C], p_tail = [''srv'', ''ftp'', ''..'', ''..'', ''x'']\<rparr>,
            \<lparr>p_root = ''/'', p_tail = [example_backslash_path]\<rparr>)"
    by (simp add: get_paths_host_def PurePosixPath_backslash is_absolute_def
        example_windows_connection_def example_connection_def Connection_init_def
        PurePosixPath_slash truediv_def parts_def ne relative_to_def Let_def
        windows_truediv_backslash windows_relative_to_example)
  have b: "win32_normalize \<lparr>p_root = [CHR ''C'', CHR '':'', CHR 0x5C], p_tail = [''srv'', ''ftp'', ''..'', ''..'', ''x'']\<rparr>
     = \<lparr>p_root = [CHR ''C'', CHR '':'', CHR 0x5C], p_tail = [''x'']\<rparr>"
    by (simp add: win32_normalize_def)
  show ?thesis using a b windows_relative_to_example(2) by simp
qed

section \<open>C7: nearest-parent permission lookup\<close>

lemma min_key_loop_first_least:
  "\<exists>ys zs. b # xs = ys @ min_key_loop k b xs # zs
      \<and> (\<forall>y\<in>set ys. k (min_key_loop k b xs) < k y)
      \<and> (\<forall>z\<in>set zs. k (min_key_loop k b xs) \<le> k z)"
proof (induction xs arbitrary: b)
  case Nil
  have "[b] = [] @ b # []" by simp
  then show ?case by (metis empty_iff empty_set min_key_loop.simps(1) order_refl)
next
  case (Cons x xs)
  define b' where "b' = (if k x < k b then x else b)"
  define r where "r = min_key_loop k b' xs"
  have r: "min_key_loop k b (x # xs) = r" by (simp add: r_def b'_def)
  from Cons [of b'] obtain ys zs where
    split: "b' # xs = ys @ r # zs" and lt: "\<forall>y\<in>set ys. k r < k y" and le: "\<forall>z\<in>set zs. k r \<le> k z"
    unfolding r_def by blast
  have rb': "k r \<le> k b'"
  proof (cases ys)
    case Nil
    with split show ?thesis by simp
  next
    case (Cons y ys')
    with split lt show ?thesis by auto
  qed
  show ?case
  proof (cases "k x < k b")
    case True
    then have "b' = x" by (simp add: b'_def)
    with split have "b # x # xs = (b # ys) @ r # zs" by simp
    moreover have "\<forall>y\<in>set (b # ys). k r < k y"
      using lt rb' True \<open>b' = x\<close> by auto
    ultimately show ?thesis unfolding r using le by blast
  next
    case False
    then have b: "b' = b" by (simp add: b'_def)
    show ?thesis
    proof (cases ys)
      case Nil
      with split b have "r = b" "zs = xs" by simp_all
      then have "b # x # xs = [] @ r # (x # zs)" by simp
      moreover have "\<forall>z\<in>set (x # zs). k r \<le> k z"
        using le False \<open>r = b\<close> by auto
      ultimately show ?thesis unfolding r by (metis empty_iff empty_set)
    next
      case (Cons y ys')
      with split b have y: "y = b" and xs: "xs = ys' @ r # zs" by simp_all
      have "b # x # xs = (b # x # ys') @ r # zs" using xs by simp
      moreover have "\<forall>y\<in>set (b # x # ys'). k r < k y"
        using lt Cons y False by auto
      ultimately show ?thesis unfolding r using le by blast
    qed
  qed
qed

lemma filter_eq_append_ConsD:
  "filter P xs = ys @ r # zs \<Longrightarrow>
     \<exists>us vs. xs = us @ r # vs \<and> filter P us = ys \<and> filter P vs = zs \<and> P r"
proof (induction xs arbitrary: ys)
  case Nil
  then show ?case by simp
next
  case (Cons a xs)
  show ?case
  proof (cases "P a")
    case False
    with Cons.prems have "filter P xs = ys @ r # zs" by simp
    from Cons.IH [OF this] obtain us vs where
      "xs = us @ r # vs" "filter P us = ys" "filter P vs = zs" "P r" by blast
    with False have "a # xs = (a # us) @ r # vs \<and> filter P (a # us) = ys \<and> filter P vs = zs \<and> P r"
      by simp
    then show ?thesis by blast
  next
    case True
    show ?thesis
    proof (cases ys)
      case Nil
      with True Cons.prems have "a # xs = [] @ r # xs \<and> filter P [] = ys \<and> filter P xs = zs \<and> P r"
        by simp
      then show ?thesis by blast
    next
      case (Cons y ys')
      with True Cons.prems have ay: "a = y" and "filter P xs = ys' @ r # zs" by simp_all
      from Cons.IH [OF this(2)] obtain us vs where
        "xs = us @ r # vs" "filter P us = ys'" "filter P vs = zs" "P r" by blast
      with True ay Cons have "a # xs = (a # us) @ r # vs \<and> filter P (a # us) = ys \<and> filter P vs = zs \<and> P r"
        by simp
      then show ?thesis by blast
    qed
  qed
qed

lemma py_min_first_least:
  assumes "xs \<noteq> []"
  shows "\<exists>ys zs. xs = ys @ py_min k d xs # zs
      \<and> (\<forall>y\<in>set ys. k (py_min k d xs) < k y)
      \<and> (\<forall>z\<in>set zs. k (py_min k d xs) \<le> k z)"
proof -
  from assms obtain b rest where xs: "xs = b # rest" by (cases xs) auto
  show ?thesis
    unfolding xs using min_key_loop_first_least [of b rest k] by (simp add: py_min_def)
qed

lemma remaining_parts_parent:
  assumes "is_parent p P"
  shows "remaining_parts P p + length (p_tail (path p)) = length (p_tail P)"
proof -
  from assms have "take (length (p_tail (path p))) (p_tail P) = p_tail (path p)"
    by (auto simp: is_parent_def relative_to_def split: if_splits)
  then have "length (p_tail (path p)) \<le> length (p_tail P)"
    by (metis length_take min.cobounded1)
  with assms show ?thesis
    by (auto simp: is_parent_def remaining_parts_def relative_to_def parts_def split: if_splits)
qed

text \<open>
  Claim C7. \<open>get_permissions\<close> returns the permission of the user's list whose path is
  an ancestor of the queried path with the fewest remaining parts, that is the longest
  ancestor; among equals the earliest in the list wins (every parent before it is
  strictly farther, every parent after it is at least as far). When no permission is
  a parent, the default permission \<open>/\<close>, readable and writable, is returned.
\<close>

theorem get_permissions_nearest_parent:
  "(if \<exists>p\<in>set (permissions u). is_parent p P
    then \<exists>before after.
           permissions u = before @ get_permissions u P # after
           \<and> is_parent (get_permissions u P) P
           \<and> (\<forall>q\<in>set before. is_parent q P \<longrightarrow>
                 remaining_parts P (get_permissions u P) < remaining_parts P q
                 \<and> length (p_tail (path q)) < length (p_tail (path (get_permissions u P))))
           \<and> (\<forall>q\<in>set after. is_parent q P \<longrightarrow>
                 remaining_parts P (get_permissions u P) \<le> remaining_parts P q
                 \<and> length (p_tail (path q)) \<le> length (p_tail (path (get_permissions u P))))
    else get_permissions u P = Permission_default)
   \<and> path Permission_default = PurePosixPath ''/''
   \<and> readable Permission_default \<and> writable Permission_default"
proof -
  define parents where "parents = filter (\<lambda>p. is_parent p P) (permissions u)"
  define r where "r = get_permissions u P"
  have r: "r = py_min (remaining_parts P) Permission_default parents"
    by (simp add: r_def get_permissions_def parents_def)
  have none: "get_permissions u P = Permission_default"
    if "\<not> (\<exists>p\<in>set (permissions u). is_parent p P)"
  proof -
    from that have "parents = []" by (auto simp: parents_def filter_empty_conv)
    then show ?thesis using r by (simp add: r_def py_min_def)
  qed
  have some: "\<exists>before after.
           permissions u = before @ r # after
           \<and> is_parent r P
           \<and> (\<forall>q\<in>set before. is_parent q P \<longrightarrow>
                 remaining_parts P r < remaining_parts P q
                 \<and> length (p_tail (path q)) < length (p_tail (path r)))
           \<and> (\<forall>q\<in>set after. is_parent q P \<longrightarrow>
                 remaining_parts P r \<le> remaining_parts P q
                 \<and> length (p_tail (path q)) \<le> length (p_tail (path r)))"
    if "\<exists>p\<in>set (permissions u). is_parent p P"
  proof -
    from that have "parents \<noteq> []" by (auto simp: parents_def filter_empty_conv)
    from py_min_first_least [OF this, of "remaining_parts P" Permission_default]
    obtain ys zs where split: "parents = ys @ r # zs"
      and lt: "\<forall>y\<in>set ys. remaining_parts P r < remaining_parts P y"
      and le: "\<forall>z\<in>set zs. remaining_parts P r \<le> remaining_parts P z"
      unfolding r by blast
    from filter_eq_append_ConsD [OF split [unfolded parents_def]]
    obtain before after where perms: "permissions u = before @ r # after"
      and us: "filter (\<lambda>p. is_parent p P) before = ys"
      and zs: "filter (\<lambda>p. is_parent p P) after = zs" and pr: "is_parent r P"
      by blast
    have len: "remaining_parts P q + length (p_tail (path q)) = length (p_tail P)"
      if "is_parent q P" for q using that by (rule remaining_parts_parent)
    have before: "remaining_parts P r < remaining_parts P q
                 \<and> length (p_tail (path q)) < length (p_tail (path r))"
      if "q \<in> set before" "is_parent q P" for q
    proof -
      from that us have "q \<in> set ys" by auto
      with lt have "remaining_parts P r < remaining_parts P q" by blast
      with len [OF pr] len [OF that(2)] show ?thesis by linarith
    qed
    have after: "remaining_parts P r \<le> remaining_parts P q
                 \<and> length (p_tail (path q)) \<le> length (p_tail (path r))"
      if "q \<in> set after" "is_parent q P" for q
    proof -
      from that zs have "q \<in> set zs" by auto
      with le have "remaining_parts P r \<le> remaining_parts P q" by blast
      with len [OF pr] len [OF that(2)] show ?thesis by linarith
    qed
    show ?thesis using perms pr before after by blast
  qed
  show ?thesis
    using none some by (auto simp: r_def Permission_default_def)
qed

section \<open>C8: resolving \<open>../../etc\<close> at the root\<close>

lemma PurePosixPath_etc: "PurePosixPath ''/etc'' = \<lparr>p_root = ''/'', p_tail = [''etc'']\<rparr>"
  by (simp add: PurePosixPath_def splitroot_def)

lemma PurePosixPath_up_up_etc:
  "PurePosixPath ''../../etc'' = \<lparr>p_root = [], p_tail = [''..'', ''..'', ''etc'']\<rparr>"
  by (simp add: PurePosixPath_def splitroot_def)

lemma get_paths_up_up_etc:
  assumes "user c = Some u" and "current_directory c = Some (PurePosixPath ''/'')"
  shows "get_paths c ''../../etc'' =
           Inr (\<lparr>p_root = p_root (base_path u), p_tail = p_tail (base_path u) @ [''etc'']\<rparr>,
                PurePosixPath ''/etc'')"
  using assms
  by (simp add: get_paths_def get_paths_of_def get_paths_host_def PurePosixPath_up_up_etc PurePosixPath_slash
      PurePosixPath_etc is_absolute_def truediv_def parts_def parent_def
      PurePosixPath_clean_part clean_part_def relative_to_def)

text \<open>
  Claim C8, as the code has it. For a logged-in connection at \<open>/\<close>, the client path
  \<open>../../etc\<close> resolves to the virtual path \<open>/etc\<close> (not \<open>/\<close>) and to the real
  path \<open>base_path/etc\<close>: each \<open>..\<close> stays at the root and the component \<open>etc\<close> is
  then appended. When that real path is a readable directory, \<open>CWD ../../etc\<close> answers
  250 and the current directory becomes \<open>/etc\<close>, which \<open>PWD\<close> then reports.
\<close>

theorem cwd_up_up_etc:
  assumes u: "user c = Some u" and cwd: "current_directory c = Some (PurePosixPath ''/'')"
    and lg: "logged c = Some True"
    and rp: "rp = \<lparr>p_root = p_root (base_path u), p_tail = p_tail (base_path u) @ [''etc'']\<rparr>"
    and ex: "fs_exists e rp = Inr True" and dir: "fs_is_dir e rp = Inr True"
    and perm: "readable (get_permissions u (PurePosixPath ''/etc''))"
    and c1: "c1 = c\<lparr>current_directory := Some (PurePosixPath ''/etc''),
                     responses := responses c @ [(''250'', Str [])],
                     io_log := io_log c @ [IO_exists rp, IO_is_dir rp]\<rparr>"
  shows "get_paths c ''../../etc'' = Inr (rp, PurePosixPath ''/etc'')
         \<and> PurePosixPath ''/etc'' \<noteq> PurePosixPath ''/''
         \<and> ftp_cwd e ''../../etc'' (s, c) = (Inr (RBool True), (s, c1))
         \<and> ftp_pwd e [] (s, c1) = (Inr (RBool True), (s, response ''257'' (Str ([CHR 0x22] @ ''/etc'' @ [CHR 0x22])) c1))"
proof -
  have g: "\<And>c'. user c' = Some u \<Longrightarrow> current_directory c' = Some (PurePosixPath ''/'')
             \<Longrightarrow> get_paths c' ''../../etc'' = Inr (rp, PurePosixPath ''/etc'')"
    unfolding rp by (rule get_paths_up_up_etc)
  have 1: "get_paths c ''../../etc'' = Inr (rp, PurePosixPath ''/etc'')"
    using u cwd by (rule g)
  have 2: "PurePosixPath ''/etc'' \<noteq> PurePosixPath ''/''"
    by (simp add: PurePosixPath_etc PurePosixPath_slash)
  have 3: "ftp_cwd e ''../../etc'' (s, c) = (Inr (RBool True), (s, c1))"
    using u cwd lg ex dir perm
    by (simp add: ftp_cwd_def ConnectionConditions_def login_required_def PathConditions_def
        path_must_exists_def path_must_be_dir_def PathPermissions_def ftp_cwd_body_def g
        log_io_def respond_def response_def c1)
  have 4: "ftp_pwd e [] (s, c1) =
             (Inr (RBool True), (s, response ''257'' (Str ([CHR 0x22] @ ''/etc'' @ [CHR 0x22])) c1))"
    using lg
    by (simp add: ftp_pwd_def ConnectionConditions_def login_required_def respond_def c1
        PurePosixPath_etc str_path_def)
  show ?thesis using 1 2 3 4 by simp
qed

section \<open>The example values: witnesses for C7 and C8\<close>

lemmas example_defs = example_connection_def example_user_def example_permissions_def
  Connection_init_def example_env_def example_server_def

lemma PurePosixPath_example:
  "PurePosixPath ''/srv/ftp'' = \<lparr>p_root = ''/'', p_tail = [''srv'', ''ftp'']\<rparr>"
  "PurePosixPath ''/srv/ftp/etc'' = \<lparr>p_root = ''/'', p_tail = [''srv'', ''ftp'', ''etc'']\<rparr>"
  "PurePosixPath ''/srv/ftp/f'' = \<lparr>p_root = ''/'', p_tail = [''srv'', ''ftp'', ''f'']\<rparr>"
  "PurePosixPath ''/a'' = \<lparr>p_root = ''/'', p_tail = [''a'']\<rparr>"
  "PurePosixPath ''/a/b'' = \<lparr>p_root = ''/'', p_tail = [''a'', ''b'']\<rparr>"
  "PurePosixPath ''/a/c'' = \<lparr>p_root = ''/'', p_tail = [''a'', ''c'']\<rparr>"
  "PurePosixPath ''f'' = \<lparr>p_root = [], p_tail = [''f'']\<rparr>"
  by (simp_all add: PurePosixPath_def splitroot_def)

theorem up_up_etc_is_not_root:
  "get_paths example_connection ''../../etc''
     = Inr (PurePosixPath ''/srv/ftp/etc'', PurePosixPath ''/etc'')
   \<and> PurePosixPath ''/etc'' \<noteq> PurePosixPath ''/''"
proof -
  have h1: "user example_connection = Some example_user"
    and h2: "current_directory example_connection = Some (PurePosixPath ''/'')"
    by (simp_all add: example_defs)
  show ?thesis
    unfolding get_paths_up_up_etc [OF h1 h2]
    by (simp add: example_user_def PurePosixPath_example PurePosixPath_etc PurePosixPath_slash)
qed

theorem get_permissions_nearest_parent_witness:
  "(\<exists>p\<in>set (permissions example_user). is_parent p (PurePosixPath ''/a/c''))
   \<and> get_permissions example_user (PurePosixPath ''/a/c'')
       = \<lparr>path = PurePosixPath ''/a'', readable = True, writable = False\<rparr>
   \<and> (\<exists>before after.
         permissions example_user
           = before @ \<lparr>path = PurePosixPath ''/a'', readable = True, writable = False\<rparr> # after
         \<and> (\<forall>q\<in>set before. is_parent q (PurePosixPath ''/a/c'') \<longrightarrow>
               length (p_tail (path q)) < length (p_tail (PurePosixPath ''/a'')))
         \<and> (\<forall>q\<in>set after. is_parent q (PurePosixPath ''/a/c'') \<longrightarrow>
               length (p_tail (path q)) \<le> length (p_tail (PurePosixPath ''/a''))))"
proof -
  let ?Q = "PurePosixPath ''/a/c''"
  have c: "\<exists>p\<in>set (permissions example_user). is_parent p ?Q"
    by (simp add: example_defs is_parent_def relative_to_def PurePosixPath_example PurePosixPath_slash)
  have v: "get_permissions example_user ?Q
       = \<lparr>path = PurePosixPath ''/a'', readable = True, writable = False\<rparr>"
    by (simp add: get_permissions_def example_defs is_parent_def relative_to_def
        PurePosixPath_example PurePosixPath_slash py_min_def remaining_parts_def parts_def)
  from get_permissions_nearest_parent [of example_user ?Q] c
  obtain before after where
    "permissions example_user = before @ get_permissions example_user ?Q # after"
    "\<forall>q\<in>set before. is_parent q ?Q \<longrightarrow>
        length (p_tail (path q)) < length (p_tail (path (get_permissions example_user ?Q)))"
    "\<forall>q\<in>set after. is_parent q ?Q \<longrightarrow>
        length (p_tail (path q)) \<le> length (p_tail (path (get_permissions example_user ?Q)))"
    by (simp only: if_True simp_thms) blast
  then show ?thesis unfolding v using c by auto
qed

theorem cwd_up_up_etc_witness:
  "user example_connection = Some example_user
   \<and> current_directory example_connection = Some (PurePosixPath ''/'')
   \<and> logged example_connection = Some True
   \<and> fs_exists example_env (PurePosixPath ''/srv/ftp/etc'') = Inr True
   \<and> fs_is_dir example_env (PurePosixPath ''/srv/ftp/etc'') = Inr True
   \<and> readable (get_permissions example_user (PurePosixPath ''/etc''))
   \<and> get_paths example_connection ''../../etc'' = Inr (PurePosixPath ''/srv/ftp/etc'', PurePosixPath ''/etc'')
   \<and> fst (ftp_cwd example_env ''../../etc'' (example_server, example_connection)) = Inr (RBool True)
   \<and> current_directory (snd (snd (ftp_cwd example_env ''../../etc'' (example_server, example_connection))))
        = Some (PurePosixPath ''/etc'')
   \<and> responses (snd (snd (ftp_pwd example_env []
          (snd (ftp_cwd example_env ''../../etc'' (example_server, example_connection))))))
        = [(''250'', Str []), (''257'', Str ([CHR 0x22] @ ''/etc'' @ [CHR 0x22]))]"
proof -
  have h1: "user example_connection = Some example_user"
    and h2: "current_directory example_connection = Some (PurePosixPath ''/'')"
    and h3: "logged example_connection = Some True"
    by (simp_all add: example_defs)
  have h4: "PurePosixPath ''/srv/ftp/etc''
      = \<lparr>p_root = p_root (base_path example_user), p_tail = p_tail (base_path example_user) @ [''etc'']\<rparr>"
    by (simp add: example_defs PurePosixPath_example)
  have h5: "fs_exists example_env (PurePosixPath ''/srv/ftp/etc'') = Inr True"
    and h6: "fs_is_dir example_env (PurePosixPath ''/srv/ftp/etc'') = Inr True"
    by (simp_all add: example_defs)
  have h7: "readable (get_permissions example_user (PurePosixPath ''/etc''))"
    by (simp add: get_permissions_def example_defs is_parent_def relative_to_def
        PurePosixPath_example PurePosixPath_etc PurePosixPath_slash py_min_def)
  note t = cwd_up_up_etc [OF h1 h2 h3 h4 h5 h6 h7 refl, of example_server]
  show ?thesis
    using h1 h2 h3 h5 h6 h7 t
    by (simp add: response_def example_connection_def Connection_init_def)
qed

section \<open>C6: Throttle.append\<close>

text \<open>
  Claim C6, as the code has it. With a positive limit, \<open>append\<close> sets an unset
  \<open>_start\<close> to \<open>start\<close>; when the float \<open>start - _start\<close> is greater than
  \<open>reset_rate\<close> it subtracts from \<open>_sum\<close> the integer that \<open>round\<close> returns for the
  float product of that difference with the limit, and rebases \<open>_start\<close> to \<open>start\<close>
  (when the product or \<open>round\<close> raises, the exception leaves \<open>append\<close> with \<open>_sum\<close>
  unchanged); otherwise, and after the subtraction, \<open>len(data)\<close> is added. With no
  limit, or a limit that is not positive, nothing changes.
\<close>

theorem Throttle_append_spec:
  "(case t_limit t of
      None \<Rightarrow> Throttle_append ops t data start = (Inr (), t)
    | Some l \<Rightarrow>
        if 0 < l then
          (let s = (case t_start t of None \<Rightarrow> start | Some s0 \<Rightarrow> s0);
               elapsed = fl_sub ops start s
           in if fl_less ops (reset_rate t) elapsed
              then (case fl_mul_int ops elapsed l of
                      Inl x \<Rightarrow> Throttle_append ops t data start = (Inl x, t\<lparr>t_start := Some s\<rparr>)
                    | Inr product \<Rightarrow>
                        (case fl_round ops product of
                           Inl x \<Rightarrow>
                             Throttle_append ops t data start = (Inl x, t\<lparr>t_start := Some s\<rparr>)
                         | Inr r \<Rightarrow>
                             Throttle_append ops t data start =
                               (Inr (), t\<lparr>t_start := Some start,
                                         t_sum := t_sum t - r + int (length data)\<rparr>)))
              else Throttle_append ops t data start =
                     (Inr (), t\<lparr>t_start := Some s, t_sum := t_sum t + int (length data)\<rparr>))
        else Throttle_append ops t data start = (Inr (), t))"
  by (cases t)
     (auto simp: Throttle_append_def Let_def split: option.splits sum.splits)

lemma py_round_21_2: "py_round (21 / 2) = 10"
  by (simp add: py_round_def Let_def)

theorem Throttle_append_spec_witness:
  "t_limit example_throttle = Some 1 \<and> (0::int) < 1
   \<and> Throttle_append example_float_ops example_throttle ''ab'' (21 / 2)
       = (Inr (), example_throttle\<lparr>t_start := Some (21 / 2), t_sum := 92\<rparr>)"
  using Throttle_append_spec [where t = example_throttle and ops = example_float_ops
      and data = "''ab''" and start = "21 / 2"]
  by (simp add: example_throttle_def example_float_ops_def py_round_21_2 Let_def)

text \<open>With limit 1, \<open>_start\<close> 0.0 and \<open>start\<close> 10.5 the product is the float 10.5, and
  10 bytes are subtracted, not 10.5: \<open>_sum\<close> goes from 100 to 92.\<close>

theorem Throttle_append_subtracts_rounded:
  "real_of_int (t_sum (snd (Throttle_append example_float_ops example_throttle ''ab'' (21 / 2))))
     \<noteq> real_of_int (t_sum example_throttle) - (21 / 2 - 0) * 1 + real (length ''ab'')"
  by (simp add: Throttle_append_def example_throttle_def example_float_ops_def py_round_21_2)

section \<open>C10: AvailableConnections\<close>

text \<open>
  Claim C10, as the code has it. On a counter with a value, \<open>acquire\<close> raises
  \<open>ValueError\<close> exactly when the value before the call is at most 0, and \<open>release\<close>
  exactly when it is at least the maximum (at the maximum and also above it); in every
  case the counter has been decremented, respectively incremented, and is not rolled
  back.
\<close>

theorem AvailableConnections_bounds:
  assumes "ac_value a = Some v" and "maximum_value a = Some m"
  shows "(fst (acquire a) = Inl ValueError \<longleftrightarrow> v \<le> 0)
         \<and> (fst (acquire a) = Inr () \<longleftrightarrow> 0 < v)
         \<and> snd (acquire a) = a\<lparr>ac_value := Some (v - 1)\<rparr>
         \<and> (fst (release a) = Inl ValueError \<longleftrightarrow> m \<le> v)
         \<and> (fst (release a) = Inr () \<longleftrightarrow> v < m)
         \<and> snd (release a) = a\<lparr>ac_value := Some (v + 1)\<rparr>"
  using assms by (auto simp: acquire_def release_def Let_def)

theorem AvailableConnections_bounds_witness:
  "ac_value (AvailableConnections_init (Some 0)) = Some 0
   \<and> maximum_value (AvailableConnections_init (Some 0)) = Some 0
   \<and> fst (acquire (AvailableConnections_init (Some 0))) = Inl ValueError
   \<and> ac_value (snd (acquire (AvailableConnections_init (Some 0)))) = Some (- 1)
   \<and> fst (release (AvailableConnections_init (Some 0))) = Inl ValueError
   \<and> ac_value (snd (release (AvailableConnections_init (Some 0)))) = Some 1"
proof -
  have h1: "ac_value (AvailableConnections_init (Some 0)) = Some 0"
    and h2: "maximum_value (AvailableConnections_init (Some 0)) = Some 0"
    by (simp_all add: AvailableConnections_init_def)
  show ?thesis
    using AvailableConnections_bounds [OF h1 h2] h1 h2 by simp
qed

text \<open>After one failed \<open>release\<close> the value is above the maximum, and the next
  \<open>release\<close> raises again although the value does not equal the maximum.\<close>

theorem release_raises_above_maximum:
  "ac_value (snd (release (AvailableConnections_init (Some 1)))) = Some 2
   \<and> maximum_value (snd (release (AvailableConnections_init (Some 1)))) = Some 1
   \<and> fst (release (snd (release (AvailableConnections_init (Some 1))))) = Inl ValueError"
  by (simp add: release_def AvailableConnections_init_def Let_def)

lemma get_paths_cong:
  assumes "user c' = user c" and "current_directory c' = current_directory c"
  shows "get_paths c' rest = get_paths c rest"
  unfolding get_paths_def get_paths_of_def get_paths_host_def assms ..

section \<open>C3: the PathPermissions guard\<close>

text \<open>
  Claim C3 against the code. The wrapper decides on the first declared flag alone: when
  that flag holds on the applicable permission the body runs, whatever the other
  declared flags are; when it does not, the answer is 550 and the body is not called.
  For a single declared flag this is the claimed behaviour; for two flags the second
  is never checked.
\<close>

theorem PathPermissions_checks_first_only:
  assumes "get_paths c rest = Inr (rp, vp)" and "user c = Some u"
  shows "PathPermissions (p1 # ps) f e rest (s, c) =
           (if getattr_permission (get_permissions u vp) p1 then f e rest (s, c)
            else (Inr (RBool True), (s, response ''550'' (Str ''permission denied'') c)))"
  using assms by (simp add: PathPermissions_def respond_def)

lemma PurePosixPath_a_x: "PurePosixPath ''/a/x'' = \<lparr>p_root = ''/'', p_tail = [''a'', ''x'']\<rparr>"
  by (simp add: PurePosixPath_def splitroot_def)

lemma example_get_paths_a_x:
  "get_paths example_connection ''/a/x''
     = Inr (\<lparr>p_root = ''/'', p_tail = [''srv'', ''ftp'', ''a'', ''x'']\<rparr>, PurePosixPath ''/a/x'')"
  by (simp add: get_paths_def get_paths_of_def get_paths_host_def example_defs PurePosixPath_a_x PurePosixPath_example
      PurePosixPath_slash is_absolute_def parts_def truediv_def PurePosixPath_clean_part
      clean_part_def relative_to_def)

lemma example_permission_a_x:
  "get_permissions example_user (PurePosixPath ''/a/x'')
     = \<lparr>path = PurePosixPath ''/a'', readable = True, writable = False\<rparr>"
  by (simp add: get_permissions_def example_defs is_parent_def relative_to_def
      PurePosixPath_example PurePosixPath_a_x PurePosixPath_slash py_min_def
      remaining_parts_def parts_def)

text \<open>The guard declared with both flags, on a path that is readable but not
  writable: the body (here \<open>ftp_quit\<close>, whose result \<open>False\<close> shows that it ran) is
  called.\<close>

theorem PathPermissions_runs_body_without_write_permission:
  "\<not> all_permissions_hold (get_permissions example_user (PurePosixPath ''/a/x''))
        [readable_name, writable_name]
   \<and> PathPermissions [readable_name, writable_name] ftp_quit example_env ''/a/x''
        (example_server, example_connection)
      = ftp_quit example_env ''/a/x'' (example_server, example_connection)
   \<and> fst (PathPermissions [readable_name, writable_name] ftp_quit example_env ''/a/x''
        (example_server, example_connection)) = Inr (RBool False)"
proof -
  have u: "user example_connection = Some example_user" by (simp add: example_defs)
  show ?thesis
    using PathPermissions_checks_first_only [OF example_get_paths_a_x u,
        of readable_name "[writable_name]" ftp_quit example_env example_server]
    by (simp add: example_permission_a_x all_permissions_hold_def ftp_quit_def)
qed

section \<open>C9: SIZE\<close>

text \<open>
  Claim C9, as the code has it. For a logged-in connection and a path that exists and is
  a file (the guards of \<open>ftp_size\<close> pass, which both halves of the claim need): when
  the transfer type is \<open>A\<close> the handler answers
  \<open>550 SIZE not allowed in ASCII mode\<close> and the path-I/O layer has been asked
  \<open>exists\<close> and \<open>is_file\<close> only, never \<open>size\<close> (the body itself makes no call at
  all); otherwise it asks \<open>size\<close> and answers 213 with the decimal of what the layer
  returned.
\<close>

theorem ftp_size_spec:
  assumes lg: "logged c \<noteq> None" and gp: "get_paths c rest = Inr (rp, vp)"
    and ex: "fs_exists e rp = Inr True" and fl: "fs_is_file e rp = Inr True"
  shows "(transfer_type c = Some ''A'' \<longrightarrow>
            ftp_size_body e rest (s, c) =
              (Inr (RBool True), (s, response ''550'' (Str ''SIZE not allowed in ASCII mode'') c))
            \<and> ftp_size e rest (s, c) =
              (Inr (RBool True),
               (s, c\<lparr>responses := responses c @ [(''550'', Str ''SIZE not allowed in ASCII mode'')],
                      io_log := io_log c @ [IO_exists rp, IO_is_file rp]\<rparr>)))
         \<and> (transfer_type c \<noteq> Some ''A'' \<longrightarrow> fs_size e rp = Inr n \<longrightarrow>
            ftp_size e rest (s, c) =
              (Inr (RBool True),
               (s, c\<lparr>responses := responses c @ [(''213'', Str (str_nat n))],
                      io_log := io_log c @ [IO_exists rp, IO_is_file rp, IO_size rp]\<rparr>)))"
proof -
  have g: "get_paths c' rest = Inr (rp, vp)"
    if "user c' = user c" "current_directory c' = current_directory c" for c'
    using get_paths_cong [OF that] gp by simp
  have guards: "ftp_size e rest (s, c) =
      ftp_size_body e rest (s, c\<lparr>io_log := io_log c @ [IO_exists rp, IO_is_file rp]\<rparr>)"
    using lg ex fl gp
    by (auto simp: ftp_size_def ConnectionConditions_def login_required_def PathConditions_def
        path_must_exists_def path_must_be_file_def log_io_def)
  show ?thesis
    unfolding guards
    by (simp add: ftp_size_body_def g gp log_io_def respond_def response_def)
qed

lemma example_get_paths_f:
  "get_paths example_connection ''f'' = Inr (PurePosixPath ''/srv/ftp/f'', PurePosixPath ''/f'')"
  by (simp add: get_paths_def get_paths_of_def get_paths_host_def example_defs PurePosixPath_example
      PurePosixPath_slash is_absolute_def parts_def truediv_def PurePosixPath_clean_part
      clean_part_def relative_to_def PurePosixPath_def [of "''/f''"] splitroot_def)

theorem ftp_size_spec_witness:
  "logged example_connection \<noteq> None
   \<and> fs_exists example_env (PurePosixPath ''/srv/ftp/f'') = Inr True
   \<and> fs_is_file example_env (PurePosixPath ''/srv/ftp/f'') = Inr True
   \<and> fs_size example_env (PurePosixPath ''/srv/ftp/f'') = Inr 5
   \<and> transfer_type (example_connection\<lparr>transfer_type := Some ''A''\<rparr>) = Some ''A''
   \<and> transfer_type example_connection \<noteq> Some ''A''
   \<and> responses (snd (snd (ftp_size example_env ''f''
        (example_server, example_connection\<lparr>transfer_type := Some ''A''\<rparr>))))
       = [(''550'', Str ''SIZE not allowed in ASCII mode'')]
   \<and> io_log (snd (snd (ftp_size example_env ''f''
        (example_server, example_connection\<lparr>transfer_type := Some ''A''\<rparr>))))
       = [IO_exists (PurePosixPath ''/srv/ftp/f''), IO_is_file (PurePosixPath ''/srv/ftp/f'')]
   \<and> responses (snd (snd (ftp_size example_env ''f'' (example_server, example_connection))))
       = [(''213'', Str ''5'')]"
proof -
  let ?A = "example_connection\<lparr>transfer_type := Some ''A''\<rparr>"
  have h1: "logged example_connection \<noteq> None" "logged ?A \<noteq> None"
    by (simp_all add: example_defs)
  have h2: "get_paths ?A ''f'' = Inr (PurePosixPath ''/srv/ftp/f'', PurePosixPath ''/f'')"
    using get_paths_cong [of ?A example_connection "''f''"] example_get_paths_f by simp
  have h3: "fs_exists example_env (PurePosixPath ''/srv/ftp/f'') = Inr True"
    and h4: "fs_is_file example_env (PurePosixPath ''/srv/ftp/f'') = Inr True"
    and h5: "fs_size example_env (PurePosixPath ''/srv/ftp/f'') = Inr 5"
    by (simp_all add: example_env_def PurePosixPath_example)
  have t1: "transfer_type ?A = Some ''A''" and t2: "transfer_type example_connection \<noteq> Some ''A''"
    by (simp_all add: example_defs)
  note a = ftp_size_spec [OF h1(2) h2 h3 h4, of example_server 5]
  note b = ftp_size_spec [OF h1(1) example_get_paths_f h3 h4, of example_server 5]
  show ?thesis
    using a b h1 h3 h4 h5 t1 t2 by (simp add: example_connection_def Connection_init_def)
qed

lemma example_get_paths_missing:
  "get_paths example_connection ''missing''
     = Inr (PurePosixPath ''/srv/ftp/missing'', PurePosixPath ''/missing'')"
  by (simp add: get_paths_def get_paths_of_def get_paths_host_def example_defs PurePosixPath_example
      PurePosixPath_slash is_absolute_def parts_def truediv_def PurePosixPath_clean_part
      clean_part_def relative_to_def PurePosixPath_def [of "''/missing''"]
      PurePosixPath_def [of "''/srv/ftp/missing''"] splitroot_def)

lemma ftp_size_missing:
  assumes lg: "logged c \<noteq> None" and gp: "get_paths c rest = Inr (rp, vp)"
    and ex: "fs_exists e rp = Inr False"
  shows "ftp_size e rest (s, c) =
           (Inr (RBool True),
            (s, c\<lparr>responses := responses c @ [(''550'', Str ''path does not exists'')],
                   io_log := io_log c @ [IO_exists rp]\<rparr>))"
  using lg ex gp
  by (auto simp: ftp_size_def ConnectionConditions_def login_required_def PathConditions_def
      path_must_exists_def path_must_be_file_def log_io_def respond_def response_def)

lemma ftp_size_not_logged_in:
  "logged c = None \<Longrightarrow>
   ftp_size e rest (s, c) = (Inr RNone, (s, response ''503'' (Str ''not logged in'') c))"
  by (simp add: ftp_size_def ConnectionConditions_def login_required_def respond_def)

text \<open>The guards of \<open>ftp_size\<close> run before its body, whatever the transfer type: in
  ASCII mode a path that does not exist is answered \<open>550 path does not exists\<close>, and a
  connection that is not logged in \<open>503 not logged in\<close>, not
  \<open>550 SIZE not allowed in ASCII mode\<close>.\<close>

theorem size_in_ascii_mode_guards_first:
  "transfer_type (example_connection\<lparr>transfer_type := Some ''A''\<rparr>) = Some ''A''
   \<and> responses (snd (snd (ftp_size example_env ''missing''
        (example_server, example_connection\<lparr>transfer_type := Some ''A''\<rparr>))))
       = [(''550'', Str ''path does not exists'')]
   \<and> responses (snd (snd (ftp_size example_env ''f''
        (example_server, Connection_init\<lparr>transfer_type := Some ''A''\<rparr>))))
       = [(''503'', Str ''not logged in'')]"
proof -
  let ?A = "example_connection\<lparr>transfer_type := Some ''A''\<rparr>"
  have g: "get_paths ?A ''missing''
     = Inr (PurePosixPath ''/srv/ftp/missing'', PurePosixPath ''/missing'')"
    using get_paths_cong [of ?A example_connection "''missing''"] example_get_paths_missing
    by simp
  have lg: "logged ?A \<noteq> None" by (simp add: example_defs)
  have ex: "fs_exists example_env (PurePosixPath ''/srv/ftp/missing'') = Inr False"
    by (simp add: example_env_def PurePosixPath_example
        PurePosixPath_def [of "''/srv/ftp/missing''"] splitroot_def)
  have nl: "logged (Connection_init\<lparr>transfer_type := Some ''A''\<rparr>) = None"
    by (simp add: Connection_init_def)
  show ?thesis
    unfolding ftp_size_missing [OF lg g ex] ftp_size_not_logged_in [OF nl]
    by (simp add: example_connection_def Connection_init_def response_def)
qed

section \<open>C2: PASV and EPSV without a free port\<close>

lemma commands_mapping_modelled:
  "commands_mapping others ''pasv'' = Some ftp_pasv"
  "commands_mapping others ''epsv'' = Some ftp_epsv"
  "commands_mapping others ''noop'' = Some ftp_noop"
  "commands_mapping others ''rest'' = Some ftp_rest"
  "commands_mapping others ''stor'' = Some ftp_stor"
  "commands_mapping others ''appe'' = Some ftp_appe"
  "commands_mapping others ''retr'' = Some ftp_retr"
  by (simp_all add: commands_mapping_def commands_table_def)

lemma passive_refused:
  assumes lg: "logged c \<noteq> None" and ps: "passive_server c = None"
    and st: "start_passive_server e (s, c) = (Inl NoAvailablePort, sc1)"
  shows "ftp_pasv e rest (s, c) = (Inr (RBool False), respond ''421'' (Lines [''no free ports'']) sc1)"
    and "ftp_epsv e [] (s, c) = (Inr (RBool False), respond ''421'' (Lines [''no free ports'']) sc1)"
  using lg ps st
  by (simp_all add: ftp_pasv_def ftp_epsv_def ConnectionConditions_def login_required_def
      ftp_pasv_body_def ftp_epsv_body_def obtain_passive_server_def)

lemma dispatch_passive_refused:
  assumes lg: "logged c \<noteq> None" and ps: "passive_server c = None"
    and st: "start_passive_server e (s, c\<lparr>restart_offset := 0\<rparr>) = (Inl NoAvailablePort, sc1)"
  shows "dispatch_command (commands_mapping others) e (''pasv'', rest) (s, c)
           = (Stop, respond ''421'' (Lines [''no free ports'']) sc1)"
    and "dispatch_command (commands_mapping others) e (''epsv'', []) (s, c)
           = (Stop, respond ''421'' (Lines [''no free ports'']) sc1)"
proof -
  have lg': "logged (c\<lparr>restart_offset := 0\<rparr>) \<noteq> None"
    and ps': "passive_server (c\<lparr>restart_offset := 0\<rparr>) = None"
    using lg ps by simp_all
  note r = passive_refused [OF lg' ps' st]
  show "dispatch_command (commands_mapping others) e (''pasv'', rest) (s, c)
           = (Stop, respond ''421'' (Lines [''no free ports'']) sc1)"
    by (simp add: dispatch_command_def commands_mapping_modelled r task_result_def)
  show "dispatch_command (commands_mapping others) e (''epsv'', []) (s, c)
           = (Stop, respond ''421'' (Lines [''no free ports'']) sc1)"
    by (simp add: dispatch_command_def commands_mapping_modelled r task_result_def)
qed

text \<open>
  Claim C2, as the code has it. When PASV, or EPSV without an argument, cannot obtain a
  passive port (\<open>_start_passive_server\<close> raises \<open>NoAvailablePort\<close>), the handler answers
  421 \<open>no free ports\<close> and returns \<open>False\<close>; the dispatcher then stops: the session
  ends there and the commands that follow are not handled.
\<close>

theorem no_free_ports_ends_session:
  assumes "logged c \<noteq> None" and "passive_server c = None"
    and "start_passive_server e (s, c\<lparr>restart_offset := 0\<rparr>) = (Inl NoAvailablePort, sc1)"
  shows "dispatch_command (commands_mapping others) e (''pasv'', rest) (s, c)
           = (Stop, respond ''421'' (Lines [''no free ports'']) sc1)
         \<and> dispatch_command (commands_mapping others) e (''epsv'', []) (s, c)
           = (Stop, respond ''421'' (Lines [''no free ports'']) sc1)
         \<and> dispatcher_loop (commands_mapping others) ((e, Command ''pasv'' rest) # evs) (s, c)
           = respond ''421'' (Lines [''no free ports'']) sc1
         \<and> dispatcher_loop (commands_mapping others) ((e, Command ''epsv'' []) # evs) (s, c)
           = respond ''421'' (Lines [''no free ports'']) sc1"
  using dispatch_passive_refused [OF assms]
  by (simp add: dispatch_event_def)


lemma start_passive_loop_Cons:
  "start_passive_loop e viewed_ports ((priority, port) # q1) =
     (if port \<in> viewed_ports then
        (if NoAvailablePort_is_OSError e
         then (Inl NoAvailablePort, put_nowait (priority + 1, port) q1)
         else (Inl NoAvailablePort, q1))
      else
        (case start_server e port of
           Inr passive \<Rightarrow> (Inr (passive, port), q1)
         | Inl err \<Rightarrow>
             if err \<noteq> EADDRINUSE then (Inl (OSError err), put_nowait (priority + 1, port) q1)
             else start_passive_loop e (insert port viewed_ports)
                    (put_nowait (priority + 1, port) q1)))"
  by (subst start_passive_loop.simps) (simp add: get_nowait_def)

lemma example_loop_all_in_use:
  "start_passive_loop example_env {} [(0, 50000), (0, 50001)]
     = (Inl NoAvailablePort, [(1, 50001), (2, 50000)])"
  by (simp add: start_passive_loop_Cons put_nowait_def example_env_def)

lemma example_start_refused:
  "start_passive_server example_env (example_server, example_connection\<lparr>restart_offset := 0\<rparr>)
     = (Inl NoAvailablePort,
        (example_server\<lparr>available_data_ports := Some [(1, 50001), (2, 50000)]\<rparr>,
         example_connection\<lparr>restart_offset := 0\<rparr>))"
  by (simp add: start_passive_server_def example_server_def Server_init_def put_nowait_def
      example_loop_all_in_use)

lemma example_noop:
  "dispatcher_loop (commands_mapping example_others) [(example_env, Command ''noop'' [])]
      (example_server, example_connection)
    = (example_server, example_connection\<lparr>responses := [(''200'', Str ''I successfully did nothing'')]\<rparr>)"
  by (simp add: dispatch_event_def dispatch_command_def commands_mapping_modelled ftp_noop_def
      ConnectionConditions_def login_required_def task_result_def respond_def response_def
      example_connection_def Connection_init_def)

text \<open>With both ports of the pool in use, PASV followed by NOOP leaves one response in
  the queue, the 421: NOOP, which alone is answered with 200, is not handled any
  more.\<close>

theorem pasv_without_free_port_stops_dispatcher:
  "responses (snd (dispatcher_loop (commands_mapping example_others)
      [(example_env, Command ''pasv'' []), (example_env, Command ''noop'' [])]
      (example_server, example_connection)))
     = [(''421'', Lines [''no free ports''])]
   \<and> responses (snd (dispatcher_loop (commands_mapping example_others)
      [(example_env, Command ''noop'' [])] (example_server, example_connection)))
     = [(''200'', Str ''I successfully did nothing'')]"
proof -
  have lg: "logged example_connection \<noteq> None" and ps: "passive_server example_connection = None"
    by (simp_all add: example_connection_def Connection_init_def)
  note d = dispatch_passive_refused(1) [OF lg ps example_start_refused, of example_others "[]"]
  have l: "dispatcher_loop (commands_mapping example_others)
      [(example_env, Command ''pasv'' []), (example_env, Command ''noop'' [])]
      (example_server, example_connection)
     = respond ''421'' (Lines [''no free ports''])
         (example_server\<lparr>available_data_ports := Some [(1, 50001), (2, 50000)]\<rparr>,
          example_connection\<lparr>restart_offset := 0\<rparr>)"
    by (simp add: dispatch_event_def d)
  show ?thesis
    unfolding l example_noop
    by (simp add: respond_def response_def example_connection_def Connection_init_def)
qed

theorem no_free_ports_ends_session_witness:
  "logged example_connection \<noteq> None \<and> passive_server example_connection = None
   \<and> start_passive_server example_env (example_server, example_connection\<lparr>restart_offset := 0\<rparr>)
       = (Inl NoAvailablePort,
          (example_server\<lparr>available_data_ports := Some [(1, 50001), (2, 50000)]\<rparr>,
           example_connection\<lparr>restart_offset := 0\<rparr>))
   \<and> dispatcher_loop (commands_mapping example_others)
        [(example_env, Command ''epsv'' []), (example_env, Command ''noop'' [])]
        (example_server, example_connection)
       = (example_server\<lparr>available_data_ports := Some [(1, 50001), (2, 50000)]\<rparr>,
          example_connection\<lparr>restart_offset := 0, responses := [(''421'', Lines [''no free ports''])]\<rparr>)"
proof -
  have lg: "logged example_connection \<noteq> None" and ps: "passive_server example_connection = None"
    by (simp_all add: example_connection_def Connection_init_def)
  show ?thesis
    using no_free_ports_ends_session [OF lg ps example_start_refused, of example_others]
      lg ps example_start_refused
    by (simp add: respond_def response_def example_connection_def Connection_init_def)
qed

section \<open>What handlers leave alone\<close>

lemma unobservedD:
  assumes "unobserved proj"
  shows "proj (respond code i sc) = proj sc" and "proj (log_io call sc) = proj sc"
  using assms unfolding unobserved_def by blast+

lemma preservesD: "preserves P proj f \<Longrightarrow> P e \<Longrightarrow> proj (snd (f e rest sc)) = proj sc"
  unfolding preserves_def by blast

lemma preservesI:
  "(\<And>e rest sc. P e \<Longrightarrow> proj (snd (f e rest sc)) = proj sc) \<Longrightarrow> preserves P proj f"
  unfolding preserves_def by blast

lemma preserves_ConnectionConditions:
  assumes "unobserved proj" and "preserves P proj f"
  shows "preserves P proj (ConnectionConditions flds code f)"
proof (rule preservesI)
  fix e :: env and rest sc
  assume P: "P e"
  show "proj (snd (ConnectionConditions flds code f e rest sc)) = proj sc"
    by (simp add: ConnectionConditions_def unobservedD [OF assms(1)] preservesD [OF assms(2) P]
           split: option.splits)
qed

lemma PathConditions_loop_unobserved:
  assumes "unobserved proj"
  shows "proj (snd (PathConditions_loop e rp conds sc)) = proj sc"
proof (induction conds arbitrary: sc)
  case Nil
  then show ?case by simp
next
  case (Cons cond conds)
  obtain name fail message where cond: "cond = (name, fail, message)" by (cases cond) auto
  have io: "proj (snd (path_io_check e name rp sc)) = proj sc"
    by (cases name) (simp_all add: unobservedD [OF assms])
  show ?case
    using Cons.IH [of "snd (path_io_check e name rp sc)"] io
    by (auto simp: cond split: prod.splits sum.splits)
qed

lemma preserves_PathConditions:
  assumes "unobserved proj" and "preserves P proj f"
  shows "preserves P proj (PathConditions conds f)"
proof (rule preservesI)
  fix e :: env and rest sc
  assume P: "P e"
  show "proj (snd (PathConditions conds f e rest sc)) = proj sc"
  proof (cases "get_paths (snd sc) rest")
    case (Inl x)
    then show ?thesis by (simp add: PathConditions_def)
  next
    case (Inr pv)
    obtain rp vp where pv: "pv = (rp, vp)" by (cases pv) auto
    obtain r sc1 where l: "PathConditions_loop e rp conds sc = (r, sc1)"
      by (cases "PathConditions_loop e rp conds sc") auto
    have sc1: "proj sc1 = proj sc"
      using PathConditions_loop_unobserved [OF assms(1), of e rp conds sc] l by simp
    show ?thesis
      using sc1
      by (simp add: PathConditions_def Inr pv l unobservedD [OF assms(1)] preservesD [OF assms(2) P]
               split: sum.splits option.splits)
  qed
qed

lemma preserves_PathPermissions:
  assumes "unobserved proj" and "preserves P proj f"
  shows "preserves P proj (PathPermissions perms f)"
proof (rule preservesI)
  fix e :: env and rest sc
  assume P: "P e"
  show "proj (snd (PathPermissions perms f e rest sc)) = proj sc"
    by (cases perms)
       (simp_all add: PathPermissions_def unobservedD [OF assms(1)] preservesD [OF assms(2) P]
             split: sum.splits option.splits prod.splits)
qed

lemma task_result_unobserved:
  assumes "unobserved proj"
  shows "proj (snd (task_result (r, sc))) = proj sc"
  by (simp add: task_result_def unobservedD [OF assms] split: sum.splits ret.splits)

section \<open>C5: the restart offset\<close>

lemma unobserved_restart_offset: "unobserved restart_offset_of"
  by (simp add: unobserved_def restart_offset_of_def respond_def response_def log_io_def)

lemma run_workers_unobserved:
  assumes "unobserved proj" and "\<And>w. preserves P proj (run_worker w)"
    and "\<And>sc ws. proj (fst sc, (snd sc)\<lparr>extra_workers := ws\<rparr>) = proj sc" and "P e"
  shows "proj (snd (run_workers e ws sc)) = proj sc"
proof (induction ws arbitrary: sc)
  case Nil
  show ?case by simp
next
  case (Cons w ws)
  define r where "r = run_worker w e [] (fst sc, (snd sc)\<lparr>extra_workers := ws\<rparr>)"
  have "proj (snd r) = proj sc"
    unfolding r_def using preservesD [OF assms(2) assms(4)] assms(3) by simp
  then have t: "proj (snd (task_result r)) = proj sc"
    using task_result_unobserved [OF assms(1), of "fst r" "snd r"] by simp
  show ?case
    using Cons.IH [of "snd (task_result r)"] t
    by (cases "task_result r") (auto simp: r_def [symmetric] split: loop_status.splits)
qed

lemma transfer_body_restart_offset:
  "preserves (\<lambda>e. True) restart_offset_of (transfer_body file_mode rp)"
  by (rule preservesI)
     (simp add: transfer_body_def Let_def restart_offset_of_def respond_def response_def log_io_def
           split: sum.splits)

lemma run_worker_restart_offset: "preserves (\<lambda>e. True) restart_offset_of (run_worker w)"
proof -
  obtain k rp where w: "w = (k, rp)" by (cases w) auto
  show ?thesis
  proof (cases k)
    case (stor_worker mode)
    have "preserves (\<lambda>e. True) restart_offset_of
            (\<lambda>e rest sc. transfer_body (if restart_offset (snd sc) \<noteq> 0 then ''r+b'' else mode) rp e rest sc)"
      using transfer_body_restart_offset by (simp add: preserves_def)
    then show ?thesis
      unfolding w stor_worker run_worker.simps
      by (rule preserves_ConnectionConditions [OF unobserved_restart_offset])
  next
    case retr_worker
    show ?thesis
      unfolding w retr_worker run_worker.simps
      by (rule preserves_ConnectionConditions [OF unobserved_restart_offset transfer_body_restart_offset])
  qed
qed

lemma ftp_stor_mode_restart_offset: "preserves (\<lambda>e. True) restart_offset_of (ftp_stor_mode mode)"
proof -
  have "preserves (\<lambda>e. True) restart_offset_of (ftp_stor_body mode)"
    by (rule preservesI)
       (simp add: ftp_stor_body_def restart_offset_of_def respond_def response_def log_io_def
             split: sum.splits prod.splits bool.splits)
  then show ?thesis
    unfolding ftp_stor_mode_def
    by (intro preserves_ConnectionConditions preserves_PathPermissions unobserved_restart_offset)
qed

lemma ftp_retr_restart_offset: "preserves (\<lambda>e. True) restart_offset_of ftp_retr"
proof -
  have "preserves (\<lambda>e. True) restart_offset_of ftp_retr_body"
    by (rule preservesI)
       (simp add: ftp_retr_body_def restart_offset_of_def respond_def response_def
             split: sum.splits prod.splits)
  then show ?thesis
    unfolding ftp_retr_def
    by (intro preserves_ConnectionConditions preserves_PathConditions preserves_PathPermissions
        unobserved_restart_offset)
qed

lemma dispatch_command_cases:
  "dispatch_command mapping e (cmd, rest) sc =
     (case mapping cmd of
        Some f \<Rightarrow>
          (let sc1 = (if cmd \<notin> set [''retr'', ''stor'', ''appe'']
                      then (fst sc, (snd sc)\<lparr>restart_offset := 0\<rparr>) else sc);
               t = task_result (f e rest sc1)
           in if fst t = Stop then t else run_workers e (extra_workers (snd (snd t))) (snd t))
      | None \<Rightarrow> (Continue, respond ''502'' (Str (repr cmd @ '' not implemented'')) sc))"
  by (auto simp: dispatch_command_def Let_def split: option.splits prod.splits loop_status.splits)

lemma transfer_keeps_restart_offset:
  assumes "cmd \<in> set [''retr'', ''stor'', ''appe'']"
  shows "restart_offset_of (snd (dispatch_command (commands_mapping others) e (cmd, rest) sc))
           = restart_offset_of sc"
proof -
  obtain f where f: "commands_mapping others cmd = Some f"
    and pf: "preserves (\<lambda>e. True) restart_offset_of f"
    using assms ftp_stor_mode_restart_offset ftp_retr_restart_offset
    by (auto simp: commands_mapping_modelled ftp_stor_def ftp_appe_def)
  define t where "t = task_result (f e rest sc)"
  have t: "restart_offset_of (snd t) = restart_offset_of sc"
    using task_result_unobserved [OF unobserved_restart_offset, of "fst (f e rest sc)" "snd (f e rest sc)"]
      preservesD [OF pf, of e rest sc]
    by (simp add: t_def)
  have w: "restart_offset_of (snd (run_workers e ws (snd t))) = restart_offset_of (snd t)" for ws
    by (rule run_workers_unobserved [OF unobserved_restart_offset run_worker_restart_offset])
       (simp_all add: restart_offset_of_def)
  show ?thesis
    using assms t w
    by (auto simp: dispatch_command_cases f Let_def t_def [symmetric])
qed

lemmas handler_defs = ConnectionConditions_def PathConditions_def PathPermissions_def
  login_required_def passive_server_started_def data_connection_made_def
  path_must_exists_def path_must_be_file_def path_must_be_dir_def
  respond_def response_def log_io_def task_result_def

lemma example_paths:
  assumes "user c = Some example_user" and "current_directory c = Some (PurePosixPath ''/'')"
  shows "get_paths c ''f'' = Inr (PurePosixPath ''/srv/ftp/f'', PurePosixPath ''/f'')"
proof -
  have "get_paths c ''f'' = get_paths example_connection ''f''"
    by (rule get_paths_cong) (simp_all add: assms example_connection_def Connection_init_def)
  then show ?thesis by (simp add: example_get_paths_f)
qed

lemma example_writable_f: "writable (get_permissions example_user (PurePosixPath ''/f''))"
  by (simp add: get_permissions_def example_defs is_parent_def relative_to_def
      PurePosixPath_example PurePosixPath_slash py_min_def PurePosixPath_def [of "''/f''"] splitroot_def)

lemma int_of_digits_3: "isdigit ''3''" "int_of_digits ''3'' = 3"
  by (simp_all add: isdigit_def int_of_digits_def digit_value_def upt_rec)

lemma digit_is_ascii: "digit_value ch \<noteq> None \<Longrightarrow> (of_char ch :: nat) < 128"
  by (auto simp: digit_value_def upt_rec split: if_splits)

lemma isdigit_is_ascii: "isdigit s \<Longrightarrow> is_ascii s"
  by (auto simp: isdigit_def is_ascii_def list_all_iff digit_is_ascii)

lemma isdigit_replicate: "0 < n \<Longrightarrow> isdigit (replicate n CHR ''1'')"
  by (auto simp: isdigit_def list_all_iff digit_value_def)

lemma run_worker_seeks:
  assumes "data_connection c \<noteq> None"
  shows "fs_open e rp ''rb'' = Inr () \<Longrightarrow>
           io_log (snd (snd (run_worker (retr_worker, rp) e rest (s, c))))
             = io_log c @ [IO_open rp ''rb'']
                 @ (if restart_offset c \<noteq> 0 then [IO_seek (restart_offset c)] else []) @ [IO_copy]"
    and "fs_open e rp (if restart_offset c \<noteq> 0 then ''r+b'' else mode) = Inr () \<Longrightarrow>
           io_log (snd (snd (run_worker (stor_worker mode, rp) e rest (s, c))))
             = io_log c @ [IO_open rp (if restart_offset c \<noteq> 0 then ''r+b'' else mode)]
                 @ (if restart_offset c \<noteq> 0 then [IO_seek (restart_offset c)] else []) @ [IO_copy]"
  using assms
  by (simp_all add: ConnectionConditions_def data_connection_made_def transfer_body_def
      respond_def response_def log_io_def)

lemma ftp_rest_digits:
  "isdigit d \<Longrightarrow> int_max_str_digits e = 0 \<or> length d \<le> int_max_str_digits e \<Longrightarrow>
   ftp_rest e d (s, c) =
     (Inr (RBool True),
      (s, c\<lparr>restart_offset := int_of_digits d,
             responses := responses c @ [(''350'', Str (''restarting at '' @ d))]\<rparr>))"
  by (auto simp: ftp_rest_def py_isdigit_def py_int_def isdigit_is_ascii respond_def response_def)

lemma ftp_rest_too_long:
  "isdigit d \<Longrightarrow> int_max_str_digits e \<noteq> 0 \<Longrightarrow> int_max_str_digits e < length d \<Longrightarrow>
   ftp_rest e d sc = (Inl ValueError, sc)"
  by (simp add: ftp_rest_def py_isdigit_def py_int_def isdigit_is_ascii)

lemma dispatch_rest_too_long:
  assumes "isdigit d" and "int_max_str_digits e \<noteq> 0" and "int_max_str_digits e < length d"
  shows "dispatch_command (commands_mapping others) e (''rest'', d) (s, c)
           = (Stop, (s, c\<lparr>restart_offset := 0\<rparr>))"
  by (simp add: dispatch_command_def commands_mapping_modelled ftp_rest_too_long [OF assms]
      task_result_def)

text \<open>
  Claim C5, as the code has it. \<open>REST n\<close>, for \<open>n\<close> a string of ASCII digits that is
  not longer than the interpreter's limit on decimal strings, sets \<open>restart_offset\<close>
  to \<open>n\<close> and answers 350; for a longer string of digits \<open>int\<close> raises \<open>ValueError\<close>
  out of the handler, nothing is answered and the dispatcher leaves its loop with the
  offset at 0. Dispatching a recognized command other than RETR, STOR and APPE resets
  the offset to 0 before the handler runs. Dispatching RETR, STOR or APPE leaves it as
  it is, also after the transfer: the offset is not consumed, and every transfer worker
  that runs while it is not zero seeks to it, until a recognized command other than a
  transfer is dispatched.
\<close>

theorem restart_offset_lifecycle:
  "(isdigit d \<longrightarrow> int_max_str_digits e = 0 \<or> length d \<le> int_max_str_digits e \<longrightarrow>
      ftp_rest e d (s, c) =
        (Inr (RBool True),
         (s, c\<lparr>restart_offset := int_of_digits d,
                responses := responses c @ [(''350'', Str (''restarting at '' @ d))]\<rparr>)))
   \<and> (isdigit d \<longrightarrow> int_max_str_digits e \<noteq> 0 \<longrightarrow> int_max_str_digits e < length d \<longrightarrow>
      ftp_rest e d (s, c) = (Inl ValueError, (s, c))
      \<and> dispatch_command (commands_mapping others) e (''rest'', d) (s, c)
          = (Stop, (s, c\<lparr>restart_offset := 0\<rparr>)))
   \<and> (mapping cmd = Some f \<longrightarrow> cmd \<notin> set [''retr'', ''stor'', ''appe''] \<longrightarrow>
      dispatch_command mapping e (cmd, rest) (s, c) =
        (let t = task_result (f e rest (s, c\<lparr>restart_offset := 0\<rparr>))
         in if fst t = Stop then t else run_workers e (extra_workers (snd (snd t))) (snd t)))
   \<and> (cmd \<in> set [''retr'', ''stor'', ''appe''] \<longrightarrow>
      restart_offset (snd (snd (dispatch_command (commands_mapping others) e (cmd, rest) (s, c))))
        = restart_offset c)
   \<and> (data_connection c \<noteq> None \<longrightarrow> fs_open e rp ''rb'' = Inr () \<longrightarrow>
      io_log (snd (snd (run_worker (retr_worker, rp) e rest (s, c))))
        = io_log c @ [IO_open rp ''rb'']
            @ (if restart_offset c \<noteq> 0 then [IO_seek (restart_offset c)] else []) @ [IO_copy])
   \<and> (data_connection c \<noteq> None \<longrightarrow>
      fs_open e rp (if restart_offset c \<noteq> 0 then ''r+b'' else mode) = Inr () \<longrightarrow>
      io_log (snd (snd (run_worker (stor_worker mode, rp) e rest (s, c))))
        = io_log c @ [IO_open rp (if restart_offset c \<noteq> 0 then ''r+b'' else mode)]
            @ (if restart_offset c \<noteq> 0 then [IO_seek (restart_offset c)] else []) @ [IO_copy])"
proof -
  have 1: "isdigit d \<longrightarrow> int_max_str_digits e = 0 \<or> length d \<le> int_max_str_digits e \<longrightarrow>
      ftp_rest e d (s, c) =
        (Inr (RBool True),
         (s, c\<lparr>restart_offset := int_of_digits d,
                responses := responses c @ [(''350'', Str (''restarting at '' @ d))]\<rparr>))"
    using ftp_rest_digits [of d e s c] by blast
  have 0: "isdigit d \<longrightarrow> int_max_str_digits e \<noteq> 0 \<longrightarrow> int_max_str_digits e < length d \<longrightarrow>
      ftp_rest e d (s, c) = (Inl ValueError, (s, c))
      \<and> dispatch_command (commands_mapping others) e (''rest'', d) (s, c)
          = (Stop, (s, c\<lparr>restart_offset := 0\<rparr>))"
    using ftp_rest_too_long [of d e "(s, c)"] dispatch_rest_too_long [of d e others s c] by blast
  have 2: "mapping cmd = Some f \<longrightarrow> cmd \<notin> set [''retr'', ''stor'', ''appe''] \<longrightarrow>
      dispatch_command mapping e (cmd, rest) (s, c) =
        (let t = task_result (f e rest (s, c\<lparr>restart_offset := 0\<rparr>))
         in if fst t = Stop then t else run_workers e (extra_workers (snd (snd t))) (snd t))"
    by (simp add: dispatch_command_cases Let_def)
  have 3: "cmd \<in> set [''retr'', ''stor'', ''appe''] \<longrightarrow>
      restart_offset (snd (snd (dispatch_command (commands_mapping others) e (cmd, rest) (s, c))))
        = restart_offset c"
    using transfer_keeps_restart_offset [of cmd others e rest "(s, c)"]
    by (simp add: restart_offset_of_def)
  have 4: "data_connection c \<noteq> None \<longrightarrow> fs_open e rp ''rb'' = Inr () \<longrightarrow>
      io_log (snd (snd (run_worker (retr_worker, rp) e rest (s, c))))
        = io_log c @ [IO_open rp ''rb'']
            @ (if restart_offset c \<noteq> 0 then [IO_seek (restart_offset c)] else []) @ [IO_copy]"
    using run_worker_seeks(1) by blast
  have 5: "data_connection c \<noteq> None \<longrightarrow>
      fs_open e rp (if restart_offset c \<noteq> 0 then ''r+b'' else mode) = Inr () \<longrightarrow>
      io_log (snd (snd (run_worker (stor_worker mode, rp) e rest (s, c))))
        = io_log c @ [IO_open rp (if restart_offset c \<noteq> 0 then ''r+b'' else mode)]
            @ (if restart_offset c \<noteq> 0 then [IO_seek (restart_offset c)] else []) @ [IO_copy]"
    using run_worker_seeks(2) by blast
  show ?thesis
    using 0 1 2 3 4 5 by blast
qed

theorem restart_offset_lifecycle_witness:
  "isdigit ''3'' \<and> length ''3'' \<le> int_max_str_digits example_env
   \<and> restart_offset (snd (snd (ftp_rest example_env ''3'' (example_server, example_connection)))) = 3
   \<and> isdigit (replicate 4301 CHR ''1'') \<and> int_max_str_digits example_env \<noteq> 0
   \<and> int_max_str_digits example_env < length (replicate 4301 CHR ''1'')
   \<and> ftp_rest example_env (replicate 4301 CHR ''1'') (example_server, example_connection)
       = (Inl ValueError, (example_server, example_connection))
   \<and> fst (dispatch_command (commands_mapping example_others) example_env
         (''rest'', replicate 4301 CHR ''1'') (example_server, example_connection)) = Stop
   \<and> commands_mapping example_others ''noop'' = Some ftp_noop
   \<and> ''noop'' \<notin> set [''retr'', ''stor'', ''appe'']
   \<and> restart_offset (snd (snd (dispatch_command (commands_mapping example_others) example_env
         (''noop'', []) (example_server, example_connection\<lparr>restart_offset := 3\<rparr>)))) = 0
   \<and> ''stor'' \<in> set [''retr'', ''stor'', ''appe'']
   \<and> restart_offset (snd (snd (dispatch_command (commands_mapping example_others) example_env
         (''stor'', ''f'') (example_server, example_connection\<lparr>restart_offset := 3\<rparr>)))) = 3
   \<and> data_connection (example_connection\<lparr>restart_offset := 3, data_connection := Some ()\<rparr>) \<noteq> None
   \<and> fs_open example_env (PurePosixPath ''/srv/ftp/f'') ''rb'' = Inr ()
   \<and> io_log (snd (snd (run_worker (retr_worker, PurePosixPath ''/srv/ftp/f'') example_env []
         (example_server, example_connection\<lparr>restart_offset := 3, data_connection := Some ()\<rparr>))))
       = [IO_open (PurePosixPath ''/srv/ftp/f'') ''rb'', IO_seek 3, IO_copy]"
proof -
  let ?c3 = "example_connection\<lparr>restart_offset := 3\<rparr>"
  let ?cd = "example_connection\<lparr>restart_offset := 3, data_connection := Some ()\<rparr>"
  have h1: "isdigit ''3''" by (rule int_of_digits_3)
  have h0: "length ''3'' \<le> int_max_str_digits example_env"
    "int_max_str_digits example_env \<noteq> 0"
    "int_max_str_digits example_env < length (replicate 4301 CHR ''1'')"
    by (simp_all add: example_env_def)
  have h7: "isdigit (replicate 4301 CHR ''1'')" by (rule isdigit_replicate) simp
  have h2: "commands_mapping example_others ''noop'' = Some ftp_noop"
    by (rule commands_mapping_modelled)
  have h3: "''noop'' \<notin> set [''retr'', ''stor'', ''appe'']"
    and h4: "''stor'' \<in> set [''retr'', ''stor'', ''appe'']" by simp_all
  have h5: "data_connection ?cd \<noteq> None" by simp
  have h6: "fs_open example_env (PurePosixPath ''/srv/ftp/f'') ''rb'' = Inr ()"
    by (simp add: example_env_def)
  note a = restart_offset_lifecycle [of "''3''" example_env example_server example_connection
      example_others "commands_mapping example_others" "''noop''" ftp_noop "[]"]
  note b = restart_offset_lifecycle [of "''3''" example_env example_server ?c3
      example_others "commands_mapping example_others" "''noop''" ftp_noop "[]"]
  note c = restart_offset_lifecycle [of "''3''" example_env example_server ?c3
      example_others "commands_mapping example_others" "''stor''" ftp_stor "''f''"]
  note d = restart_offset_lifecycle [of "''3''" example_env example_server ?cd
      example_others "commands_mapping example_others" "''stor''" ftp_stor "[]"
      "PurePosixPath ''/srv/ftp/f''"]
  note l = restart_offset_lifecycle [of "replicate 4301 CHR ''1''" example_env example_server
      example_connection example_others "commands_mapping example_others" "''noop''" ftp_noop "[]"]
  have r1: "restart_offset (snd (snd (ftp_rest example_env ''3'' (example_server, example_connection)))) = 3"
    using a h1 h0(1) by (simp add: int_of_digits_3)
  have r0: "ftp_rest example_env (replicate 4301 CHR ''1'') (example_server, example_connection)
       = (Inl ValueError, (example_server, example_connection))"
    "fst (dispatch_command (commands_mapping example_others) example_env
         (''rest'', replicate 4301 CHR ''1'') (example_server, example_connection)) = Stop"
    using l h7 h0(2) h0(3) by simp_all
  have r2: "restart_offset (snd (snd (dispatch_command (commands_mapping example_others) example_env
         (''noop'', []) (example_server, ?c3)))) = 0"
    using b h2 h3
    by (simp add: ftp_noop_def handler_defs example_connection_def Connection_init_def)
  have r3: "restart_offset (snd (snd (dispatch_command (commands_mapping example_others) example_env
         (''stor'', ''f'') (example_server, ?c3)))) = 3"
    using c h4 by simp
  have r4: "io_log (snd (snd (run_worker (retr_worker, PurePosixPath ''/srv/ftp/f'') example_env []
         (example_server, ?cd))))
       = [IO_open (PurePosixPath ''/srv/ftp/f'') ''rb'', IO_seek 3, IO_copy]"
    using d h5 h6 by (simp add: example_connection_def Connection_init_def)
  show ?thesis using h0 h1 h2 h3 h4 h5 h6 h7 r0 r1 r2 r3 r4 by blast
qed

text \<open>PASV, REST 3, STOR f, STOR f, with the client connecting before each transfer:
  both transfers open the file \<open>r+b\<close> and seek to 3.\<close>

theorem second_transfer_seeks_again:
  "io_log (snd (dispatcher_loop (commands_mapping example_others) example_transfers
      (example_server, example_connection)))
    = [IO_is_dir (PurePosixPath ''/srv/ftp''),
       IO_open (PurePosixPath ''/srv/ftp/f'') ''r+b'', IO_seek 3, IO_copy,
       IO_is_dir (PurePosixPath ''/srv/ftp''),
       IO_open (PurePosixPath ''/srv/ftp/f'') ''r+b'', IO_seek 3, IO_copy]"
  by (simp add: example_transfers_def dispatch_event_def dispatch_command_def
      commands_mapping_modelled ftp_pasv_def ftp_pasv_body_def
      obtain_passive_server_def start_passive_server_def start_passive_loop_Cons
      drop_data_connection_def handler_defs example_env_free_def example_env_def example_server_def
      Server_init_def put_nowait_def accept_data_connection_def ftp_rest_def py_isdigit_def
      py_int_def is_ascii_def int_of_digits_3
      ftp_stor_def ftp_stor_mode_def ftp_stor_body_def example_paths example_writable_f
      transfer_body_def parent_def PurePosixPath_example
      example_connection_def Connection_init_def)

section \<open>C4: the port pool\<close>













































subsection \<open>Several sessions\<close>



























text \<open>Were \<open>NoAvailablePort\<close> not an \<open>OSError\<close>, the port taken from the queue for
  the second time would not be put back.\<close>

lemma port_lost_unless_OSError:
  "\<not> NoAvailablePort_is_OSError e \<Longrightarrow>
   start_passive_loop e {port} [(priority, port)] = (Inl NoAvailablePort, [])"
  by (simp add: start_passive_loop_Cons)

end
